theory Spec2Isabelle
  imports Main "HOL-Library.Word"
begin

unbundle bit_operations_syntax

section \<open>JavaScript values and string primitives\<close>

text \<open>
  The numbers that flow through \<^verbatim>\<open>decodeAddress\<close> and \<^verbatim>\<open>__PORT\<close> are
  JavaScript values: an integer, \<^verbatim>\<open>NaN\<close>, or \<^verbatim>\<open>undefined\<close> (what reading an
  array past its end gives). Strings are lists of characters.
\<close>

datatype jsval = Undefined | JNum int | NaN

definition isDigit :: "char \<Rightarrow> bool" where
  "isDigit c = (48 \<le> (of_char c :: nat) \<and> (of_char c :: nat) \<le> 57)"

text \<open>The white space that \<^verbatim>\<open>String.prototype.trim\<close> strips, among the characters
  below 256: TAB, LF, VT, FF, CR, SPACE and NBSP.\<close>

definition isWhiteSpace :: "char \<Rightarrow> bool" where
  "isWhiteSpace c = ((of_char c :: nat) \<in> {9, 10, 11, 12, 13, 32, 160})"

definition trim :: "string \<Rightarrow> string" where
  "trim s = rev (dropWhile isWhiteSpace (rev (dropWhile isWhiteSpace s)))"

text \<open>\<^verbatim>\<open>toUpperCase\<close> on ASCII letters, which is what the command names are made of;
  other characters are left as they are here, while JavaScript also maps letters outside
  ASCII (the sharp s, for one, becomes SS).\<close>

definition toUpperChar :: "char \<Rightarrow> char" where
  "toUpperChar c =
     (case map_of (zip ''abcdefghijklmnopqrstuvwxyz'' ''ABCDEFGHIJKLMNOPQRSTUVWXYZ'') c of
        None \<Rightarrow> c
      | Some u \<Rightarrow> u)"

definition toUpperCase :: "string \<Rightarrow> string" where
  "toUpperCase s = map toUpperChar s"

text \<open>\<^verbatim>\<open>s.split(sep)\<close> for a one-character separator: always at least one field.\<close>

primrec splitOn :: "char \<Rightarrow> string \<Rightarrow> string list" where
  "splitOn sep [] = [[]]"
| "splitOn sep (c # cs) =
     (if c = sep then [] # splitOn sep cs
      else (case splitOn sep cs of
              [] \<Rightarrow> [[c]]
            | f # fs \<Rightarrow> (c # f) # fs))"

text \<open>\<^verbatim>\<open>xs.join(sep)\<close>.\<close>

fun join :: "string \<Rightarrow> string list \<Rightarrow> string" where
  "join sep [] = []"
| "join sep [x] = x"
| "join sep (x # y # ys) = x @ sep @ join sep (y # ys)"

definition digitValue :: "char \<Rightarrow> nat" where
  "digitValue c = (of_char c :: nat) - 48"

definition digitsValue :: "string \<Rightarrow> nat" where
  "digitsValue ds = foldl (\<lambda>a c. 10 * a + digitValue c) 0 ds"

text \<open>\<^verbatim>\<open>parseInt(s, 10)\<close>: leading white space, an optional sign, then the longest run
  of decimal digits; \<^verbatim>\<open>NaN\<close> when there is no digit.\<close>

definition parseInt10 :: "string \<Rightarrow> jsval" where
  "parseInt10 s =
     (let t = dropWhile isWhiteSpace s;
          neg = (case t of [] \<Rightarrow> False | c # _ \<Rightarrow> c = CHR ''-'');
          u = (case t of [] \<Rightarrow> []
               | c # r \<Rightarrow> if c = CHR ''-'' \<or> c = CHR ''+'' then r else t);
          ds = takeWhile isDigit u
      in if ds = [] then NaN
         else JNum (if neg then - int (digitsValue ds) else int (digitsValue ds)))"

definition digitChar :: "nat \<Rightarrow> char" where
  "digitChar d = ''0123456789'' ! d"

fun stringOfNat :: "nat \<Rightarrow> string" where
  "stringOfNat n =
     (if n < 10 then [digitChar n]
      else stringOfNat (n div 10) @ [digitChar (n mod 10)])"

declare stringOfNat.simps [simp del]

text \<open>\<^verbatim>\<open>String(v)\<close>, as string concatenation and \<^verbatim>\<open>join\<close> apply it.\<close>

definition jsToString :: "jsval \<Rightarrow> string" where
  "jsToString v =
     (case v of
        Undefined \<Rightarrow> ''undefined''
      | NaN \<Rightarrow> ''NaN''
      | JNum i \<Rightarrow> (if i < 0 then CHR ''-'' # stringOfNat (nat (- i)) else stringOfNat (nat i)))"

text \<open>\<^verbatim>\<open>xs[i]\<close>: \<^verbatim>\<open>undefined\<close> past the end of the array.\<close>

definition jsIndex :: "jsval list \<Rightarrow> nat \<Rightarrow> jsval" where
  "jsIndex xs i = (if i < length xs then xs ! i else Undefined)"

text \<open>\<^verbatim>\<open>v > k\<close> on a number: false for \<^verbatim>\<open>NaN\<close> and \<^verbatim>\<open>undefined\<close>.\<close>

definition jsGreater :: "jsval \<Rightarrow> int \<Rightarrow> bool" where
  "jsGreater v k = (case v of JNum i \<Rightarrow> i > k | _ \<Rightarrow> False)"

text \<open>\<^verbatim>\<open>v << k\<close>: \<^verbatim>\<open>ToInt32\<close> of the operand (0 for \<^verbatim>\<open>NaN\<close> and
  \<^verbatim>\<open>undefined\<close>), shifted in 32 bits, read back signed.\<close>

definition jsShiftLeft :: "jsval \<Rightarrow> nat \<Rightarrow> jsval" where
  "jsShiftLeft v k =
     (case v of
        JNum i \<Rightarrow> JNum (sint (push_bit k (word_of_int i :: 32 word)))
      | _ \<Rightarrow> JNum 0)"

text \<open>\<^verbatim>\<open>a + b\<close> on numbers: \<^verbatim>\<open>ToNumber(undefined)\<close> is \<^verbatim>\<open>NaN\<close>, and
  \<^verbatim>\<open>NaN\<close> absorbs.\<close>

definition jsAdd :: "jsval \<Rightarrow> jsval \<Rightarrow> jsval" where
  "jsAdd a b = (case (a, b) of (JNum x, JNum y) \<Rightarrow> JNum (x + y) | _ \<Rightarrow> NaN)"

section \<open>Address encoding (FtpConnection.js)\<close>

record address =
  addrHost :: string
  addrPort :: jsval

text \<open>\<^verbatim>\<open>ENCODED_ADDRESS = /^[0-9]{1,3}(,[0-9]{1,3}){5}$/\<close>: exactly six fields
  separated by commas, each of one to three decimal digits.\<close>

definition ENCODED_ADDRESS :: "string \<Rightarrow> bool" where
  "ENCODED_ADDRESS s =
     (length (splitOn CHR '','' s) = 6 \<and>
      list_all (\<lambda>f. 1 \<le> length f \<and> length f \<le> 3 \<and> list_all isDigit f)
        (splitOn CHR '','' s))"

text \<open>
  \<^verbatim>\<open>decodeAddress\<close>: the octets are the six parsed fields, indexed 0 to 5; the port is
  computed from \<^verbatim>\<open>octets[5]\<close> and \<^verbatim>\<open>octets[6]\<close>, as the source writes it.
\<close>

definition decodeAddress :: "string \<Rightarrow> address option" where
  "decodeAddress encoded =
     (if \<not> ENCODED_ADDRESS encoded then None
      else let octets = map parseInt10 (splitOn CHR '','' encoded) in
        if list_ex (\<lambda>number. jsGreater number 255) octets then None
        else Some \<lparr> addrHost = join ''.'' (map jsToString (take 4 octets)),
                    addrPort = jsAdd (jsShiftLeft (jsIndex octets 5) 8) (jsIndex octets 6) \<rparr>)"

text \<open>\<^verbatim>\<open>encodeAddress\<close>, the sibling that writes the 227 reply: the port's high byte
  is \<^verbatim>\<open>(port / 256) | 0\<close> and its low byte \<^verbatim>\<open>port % 256\<close>. The quotient is taken
  on natural numbers; the 32-bit truncation of the source differs from it only for
  numbers far above any port.\<close>

definition encodeAddress :: "string \<Rightarrow> nat \<Rightarrow> string" where
  "encodeAddress h p =
     join '','' (splitOn CHR ''.'' h) @ '','' @ stringOfNat (p div 256)
       @ '','' @ stringOfNat (p mod 256)"

section \<open>The control session (FtpConnection.js)\<close>

text \<open>
  Modelled from the spec: the \<^verbatim>\<open>Constants\<close> module is not among the sources. Its three
  tables are the command sets of the spec's data model: SUPPORTED (every command of the
  command list), NO_AUTH and REQUIRES_DATA_SOCKET.
\<close>

definition COMMANDS_SUPPORTED :: "string list" where
  "COMMANDS_SUPPORTED =
     [''ACCT'', ''ALLO'', ''APPE'', ''AUTH'', ''CDUP'', ''CWD'', ''DELE'', ''EPRT'', ''EPSV'',
      ''FEAT'', ''LIST'', ''MDTM'', ''MKD'', ''NLST'', ''NOOP'', ''OPTS'', ''PASS'', ''PASV'',
      ''PBSZ'', ''PORT'', ''PROT'', ''PWD'', ''QUIT'', ''RETR'', ''RMD'', ''RNFR'', ''RNTO'',
      ''SIZE'', ''STAT'', ''STOR'', ''SYST'', ''TYPE'', ''USER'']"

definition COMMANDS_NO_AUTH :: "string list" where
  "COMMANDS_NO_AUTH =
     [''USER'', ''PASS'', ''QUIT'', ''FEAT'', ''AUTH'', ''OPTS'', ''NOOP'', ''SYST'', ''TYPE'',
      ''PBSZ'', ''PROT'']"

definition COMMANDS_REQUIRE_DATA_SOCKET :: "string list" where
  "COMMANDS_REQUIRE_DATA_SOCKET = [''LIST'', ''NLST'', ''RETR'', ''STOR'', ''APPE'']"

text \<open>
  The fields of \<^verbatim>\<open>FtpConnection\<close> that the dispatch gate and the data-channel commands
  read or write, with the two server options they consult (\<^verbatim>\<open>server.options.tlsOnly\<close>,
  \<^verbatim>\<open>server.host\<close>). \<^verbatim>\<open>pendingPASV\<close> stands for the closure handed to
  \<^verbatim>\<open>createDataConnection\<close>: it holds \<^verbatim>\<open>isExtendedPASV\<close> until the pool calls back.
  A passive data connection is referred to by its port, a socket by a number.
\<close>

record FtpConnection =
  dataPort :: jsval
  dataHost :: "string option"
  dataConnection :: "nat option"
  dataSocket :: "nat option"
  isEstablishingDataConnection :: bool
  hasReceivedPASV :: bool
  hasReceivedPORT :: bool
  pendingPASV :: "bool option"
  username :: "string option"
  isWaitingForPassword :: bool
  hasQuit :: bool
  secure :: bool
  pbszReceived :: bool
  allowedCommands :: "string list option"
  tlsOptions :: bool
  tlsOnly :: bool
  serverHost :: string

text \<open>The constructor, for a server with the given options.\<close>

definition newFtpConnection :: "string list option \<Rightarrow> bool \<Rightarrow> bool \<Rightarrow> string \<Rightarrow> FtpConnection" where
  "newFtpConnection allowed tlsConfigured tlsOnlyOpt hostOpt =
     \<lparr> dataPort = JNum 20, dataHost = None, dataConnection = None, dataSocket = None,
       isEstablishingDataConnection = False, hasReceivedPASV = False,
       hasReceivedPORT = False, pendingPASV = None, username = None,
       isWaitingForPassword = False, hasQuit = False, secure = False,
       pbszReceived = False, allowedCommands = allowed, tlsOptions = tlsConfigured,
       tlsOnly = tlsOnlyOpt, serverHost = hostOpt \<rparr>"

text \<open>
  What a handler does besides updating the session: a reply line on the control socket, a
  request to the passive listener pool, a hook handed to the embedding application, a
  socket torn down. \<^verbatim>\<open>Exec\<close> stands for the handlers that work on the filesystem
  backend (LIST, RETR, STOR, CWD and the like): they assign none of the fields above
  in their own body.
\<close>

datatype action =
    Respond string
  | Exec string string
  | CreateDataConnection string bool
  | EmitCommandUser string
  | EmitCommandPass string
  | StartTLS
  | EmitDataConnectionEstablished
  | DestroyDataConnection nat
  | CloseDataSocket nat
  | CloseControlSocket

text \<open>\<^verbatim>\<open>_isAuthenticated\<close> is \<^verbatim>\<open>!!this.username\<close>: the empty string does not count.\<close>

definition isAuthenticated :: "FtpConnection \<Rightarrow> bool" where
  "isAuthenticated s = (case username s of None \<Rightarrow> False | Some u \<Rightarrow> u \<noteq> [])"

definition doesRequireDataConnection :: "string \<Rightarrow> bool" where
  "doesRequireDataConnection command = (command \<in> set COMMANDS_REQUIRE_DATA_SOCKET)"

definition hasReceivedDataConnectionRequest :: "FtpConnection \<Rightarrow> bool" where
  "hasReceivedDataConnectionRequest s =
     (isEstablishingDataConnection s \<or> dataConnection s \<noteq> None)"

definition cmdPORT :: "FtpConnection \<Rightarrow> string \<Rightarrow> FtpConnection \<times> action list" where
  "cmdPORT s commandArg =
     (if hasReceivedPASV s \<or> hasReceivedPORT s
      then (s, [Respond ''503 Bad sequence of commands.''])
      else let s1 = s\<lparr>hasReceivedPORT := True\<rparr> in
        (case decodeAddress commandArg of
           None \<Rightarrow> (s1, [Respond ''501 Bad argument to PORT''])
         | Some a \<Rightarrow>
             if addrPort a = Undefined
             then (s1, [Respond ''501 Bad argument to PORT''])
             else (s1\<lparr>dataHost := Some (addrHost a), dataPort := addrPort a\<rparr>,
                   [Respond ''200 OK''])))"

text \<open>\<^verbatim>\<open>__EPRT\<close> hands its argument to \<^verbatim>\<open>__PORT\<close> unchanged.\<close>

definition cmdEPRT :: "FtpConnection \<Rightarrow> string \<Rightarrow> FtpConnection \<times> action list" where
  "cmdEPRT s commandArg = cmdPORT s commandArg"

text \<open>
  \<^verbatim>\<open>_parseEPRT\<close>, which no handler calls. Its pattern
  \<^verbatim>\<open>/^\|1\|([0-9]{1,3}\.[0-9]{1,3}\.[0-9]{1,3}\.[0-9]{1,3})\|([0-9]{1,5})/\<close> is matched from
  the left: each group takes as many digits as it may, and the pattern is not anchored at
  the end. The result is the reply the method sends, the address it returns, or the error it throws.
\<close>

definition takeDigits :: "nat \<Rightarrow> string \<Rightarrow> (string \<times> string) option" where
  "takeDigits n s =
     (let ds = take n (takeWhile isDigit s)
      in if ds = [] then None else Some (ds, drop (length ds) s))"

definition expectChar :: "char \<Rightarrow> string \<Rightarrow> string option" where
  "expectChar c s = (case s of [] \<Rightarrow> None | x # r \<Rightarrow> if x = c then Some r else None)"

definition matchEPRT :: "string \<Rightarrow> (string \<times> string) option" where
  "matchEPRT s =
     Option.bind (expectChar CHR ''|'' s) (\<lambda>r0.
     Option.bind (expectChar CHR ''1'' r0) (\<lambda>r1.
     Option.bind (expectChar CHR ''|'' r1) (\<lambda>r2.
     Option.bind (takeDigits 3 r2) (\<lambda>(a, r3).
     Option.bind (expectChar CHR ''.'' r3) (\<lambda>r4.
     Option.bind (takeDigits 3 r4) (\<lambda>(b, r5).
     Option.bind (expectChar CHR ''.'' r5) (\<lambda>r6.
     Option.bind (takeDigits 3 r6) (\<lambda>(c, r7).
     Option.bind (expectChar CHR ''.'' r7) (\<lambda>r8.
     Option.bind (takeDigits 3 r8) (\<lambda>(d, r9).
     Option.bind (expectChar CHR ''|'' r9) (\<lambda>r10.
     Option.bind (takeDigits 5 r10) (\<lambda>(p, r11).
       Some (a @ ''.'' @ b @ ''.'' @ c @ ''.'' @ d, p)))))))))))))"

datatype eprt = EprtReply string | EprtAddress string int | EprtThrow string

definition parseEPRT :: "string \<Rightarrow> eprt" where
  "parseEPRT commandArg =
     (if length commandArg \<ge> 3 \<and> commandArg ! 0 = CHR ''|'' \<and> commandArg ! 2 = CHR ''|''
         \<and> commandArg ! 1 = CHR ''2''
      then EprtReply ''522 Server cannot handle IPv6 EPRT commands, use (1)''
      else (case matchEPRT commandArg of
              None \<Rightarrow> EprtReply ''501 Bad Argument to EPRT''
            | Some (h, p) \<Rightarrow>
                (case parseInt10 p of
                   JNum r \<Rightarrow>
                     if r > 65535 \<or> r \<le> 0
                     then EprtReply ''501 Bad argument to EPRT (invalid port number)''
                     else EprtAddress h r
                 | _ \<Rightarrow> EprtThrow ''Impossible NaN in FtpConnection.prototype._PORT (2)'')))"

definition cmdPASV :: "FtpConnection \<Rightarrow> string \<Rightarrow> FtpConnection \<times> action list" where
  "cmdPASV s command =
     (if hasReceivedPASV s \<or> hasReceivedPORT s
      then (s, [Respond ''503 Bad sequence of commands.''])
      else (s\<lparr>hasReceivedPASV := True, isEstablishingDataConnection := True,
               pendingPASV := Some (command = ''EPSV'')\<rparr>,
            [CreateDataConnection (serverHost s) (secure s)]))"

definition cmdEPSV :: "FtpConnection \<Rightarrow> string \<Rightarrow> string \<Rightarrow> FtpConnection \<times> action list" where
  "cmdEPSV s commandArg command =
     (if commandArg \<noteq> [] \<and> commandArg \<noteq> ''1''
      then (s, [Respond ''202 Not supported''])
      else cmdPASV s command)"

definition cmdUSER :: "FtpConnection \<Rightarrow> string \<Rightarrow> FtpConnection \<times> action list" where
  "cmdUSER s name =
     (if tlsOnly s \<and> \<not> secure s
      then (s, [Respond (''530 This server does not permit login over a non-secure connection; ''
                  @ ''connect using FTP-SSL with explicit AUTH TLS'')])
      else (s, [EmitCommandUser name]))"

definition cmdPASS :: "FtpConnection \<Rightarrow> string \<Rightarrow> FtpConnection \<times> action list" where
  "cmdPASS s password =
     (if \<not> isWaitingForPassword s
      then (s, [Respond ''503 Bad sequence of commands.''])
      else (s\<lparr>isWaitingForPassword := False\<rparr>, [EmitCommandPass password]))"

definition cmdQUIT :: "FtpConnection \<Rightarrow> FtpConnection \<times> action list" where
  "cmdQUIT s = (s\<lparr>hasQuit := True\<rparr>, [Respond ''221 Goodbye''])"

definition cmdAUTH :: "FtpConnection \<Rightarrow> string \<Rightarrow> FtpConnection \<times> action list" where
  "cmdAUTH s commandArg =
     (if \<not> tlsOptions s \<or> commandArg \<noteq> ''TLS''
      then (s, [Respond ''502 Command not implemented''])
      else (s, [Respond ''234 Honored'', StartTLS]))"

definition cmdPBSZ :: "FtpConnection \<Rightarrow> string \<Rightarrow> FtpConnection \<times> action list" where
  "cmdPBSZ s commandArg =
     (if \<not> tlsOptions s then (s, [Respond ''202 Not supported''])
      else if \<not> secure s then (s, [Respond ''503 Secure connection not established''])
      else if parseInt10 commandArg \<noteq> JNum 0
      then (s\<lparr>pbszReceived := True\<rparr>, [Respond ''200 buffer too big, PBSZ=0''])
      else (s\<lparr>pbszReceived := True\<rparr>, [Respond ''200 OK'']))"

definition cmdPROT :: "FtpConnection \<Rightarrow> string \<Rightarrow> FtpConnection \<times> action list" where
  "cmdPROT s commandArg =
     (if \<not> tlsOptions s then (s, [Respond ''202 Not supported''])
      else if \<not> pbszReceived s then (s, [Respond ''503 No PBSZ command received''])
      else if commandArg = ''S'' \<or> commandArg = ''E'' \<or> commandArg = ''C''
      then (s, [Respond ''536 Not supported''])
      else if commandArg = ''P'' then (s, [Respond ''200 OK''])
      else (s, [Respond ''504 Not recognized'']))"

definition CRLF :: string where
  "CRLF = [CHR 0x0D, CHR 0x0A]"

definition cmdFEAT :: "FtpConnection \<Rightarrow> FtpConnection \<times> action list" where
  "cmdFEAT s =
     (let features = [''SIZE'', ''UTF8'', ''MDTM'']
            @ (if tlsOptions s then [''AUTH TLS'', ''PBSZ'', ''PROT''] else [])
      in (s, [Respond (''211-Features'' @ CRLF
                @ concat (map (\<lambda>feature. '' '' @ feature @ CRLF) features) @ ''211 end'')]))"

definition cmdOPTS :: "FtpConnection \<Rightarrow> string \<Rightarrow> FtpConnection \<times> action list" where
  "cmdOPTS s commandArg =
     (if toUpperCase commandArg = ''UTF8 ON'' then (s, [Respond ''200 OK''])
      else (s, [Respond ''451 Not supported'']))"

definition cmdTYPE :: "FtpConnection \<Rightarrow> string \<Rightarrow> FtpConnection \<times> action list" where
  "cmdTYPE s commandArg =
     (if commandArg = ''I'' \<or> commandArg = ''A'' then (s, [Respond ''200 OK''])
      else (s, [Respond ''202 Not supported'']))"

definition cmdSTAT :: "FtpConnection \<Rightarrow> string \<Rightarrow> FtpConnection \<times> action list" where
  "cmdSTAT s commandArg =
     (if commandArg \<noteq> [] then (s, [Exec ''LIST'' commandArg])
      else (s, [Respond ''211 FTP Server Status OK'']))"

text \<open>\<^verbatim>\<open>_execCommand\<close>: the method named after the command.\<close>

definition execCommand :: "FtpConnection \<Rightarrow> string \<Rightarrow> string \<Rightarrow> FtpConnection \<times> action list" where
  "execCommand s command commandArg =
     (if command = ''PORT'' then cmdPORT s commandArg
      else if command = ''EPRT'' then cmdEPRT s commandArg
      else if command = ''PASV'' then cmdPASV s command
      else if command = ''EPSV'' then cmdEPSV s commandArg command
      else if command = ''USER'' then cmdUSER s commandArg
      else if command = ''PASS'' then cmdPASS s commandArg
      else if command = ''QUIT'' then cmdQUIT s
      else if command = ''AUTH'' then cmdAUTH s commandArg
      else if command = ''PBSZ'' then cmdPBSZ s commandArg
      else if command = ''PROT'' then cmdPROT s commandArg
      else if command = ''FEAT'' then cmdFEAT s
      else if command = ''OPTS'' then cmdOPTS s commandArg
      else if command = ''TYPE'' then cmdTYPE s commandArg
      else if command = ''STAT'' then cmdSTAT s commandArg
      else if command = ''NOOP'' then (s, [Respond ''200 OK''])
      else if command = ''SYST'' then (s, [Respond ''215 UNIX Type: I''])
      else if command = ''ACCT'' \<or> command = ''ALLO''
      then (s, [Respond ''202 Command not implemented, superfluous at this site.''])
      else if command = ''NLST'' then (s, [Exec ''LIST'' commandArg])
      else (s, [Exec command commandArg]))"

text \<open>\<^verbatim>\<open>_onData\<close> after the command line is parsed: the dispatch gate.\<close>

definition dispatch :: "FtpConnection \<Rightarrow> string \<Rightarrow> string \<Rightarrow> FtpConnection \<times> action list" where
  "dispatch s command commandArg =
     (if command \<notin> set COMMANDS_SUPPORTED \<or>
         (case allowedCommands s of None \<Rightarrow> False | Some allowed \<Rightarrow> command \<notin> set allowed)
      then (s, [Respond ''502 Command not implemented.''])
      else if command \<in> set COMMANDS_NO_AUTH then execCommand s command commandArg
      else if \<not> secure s \<and> tlsOnly s
      then (s, [Respond ''522 Protection level not sufficient; send AUTH TLS''])
      else if \<not> isAuthenticated s then (s, [Respond ''530 Not logged in.''])
      else if doesRequireDataConnection command \<and> \<not> hasReceivedDataConnectionRequest s
      then (s, [Respond ''425 Data connection not configured; send PASV or PORT''])
      else execCommand s command commandArg)"

text \<open>\<^verbatim>\<open>_onData\<close>: input after QUIT is dropped; otherwise the line is trimmed, split at
  spaces, the first word upper-cased, the rest joined again and trimmed.\<close>

definition parseCommand :: "string \<Rightarrow> string \<times> string" where
  "parseCommand line =
     (case splitOn CHR '' '' (trim line) of
        [] \<Rightarrow> ([], [])
      | first # parts \<Rightarrow> (toUpperCase first, trim (join '' '' parts)))"

definition onData :: "FtpConnection \<Rightarrow> string \<Rightarrow> FtpConnection \<times> action list" where
  "onData s line =
     (if hasQuit s then (s, [])
      else (case parseCommand line of (command, commandArg) \<Rightarrow> dispatch s command commandArg))"

text \<open>
  Everything else that reaches the session arrives through a callback. Each constructor
  names the callback and carries what it is called with.
\<close>

datatype event =
    SocketData string
  | UserSuccess
  | UserFailure
  | PassSuccess string bool
  | PassFailure
  | SecureStarted
  | PoolCallback "nat option"
  | DataConnectionReady nat
  | DataConnectionError
  | DataConnectionClose
  | DataSocketError
  | DataSocketOver
  | ActiveConnect nat
  | ActiveOver
  | ActiveError nat
  | QuitWritten
  | ControlClose

text \<open>\<^verbatim>\<open>_onDataConnection\<close>.\<close>

definition onDataConnection :: "FtpConnection \<Rightarrow> nat \<Rightarrow> FtpConnection \<times> action list" where
  "onDataConnection s sock =
     (let s1 = s\<lparr>dataSocket := Some sock\<rparr> in
      if isEstablishingDataConnection s1
      then (s1\<lparr>isEstablishingDataConnection := False\<rparr>, [EmitDataConnectionEstablished])
      else (s1, []))"

text \<open>
  One callback. \<^verbatim>\<open>UserSuccess\<close>/\<^verbatim>\<open>UserFailure\<close> and \<^verbatim>\<open>PassSuccess\<close>/\<^verbatim>\<open>PassFailure\<close>
  are the callbacks handed to the \<^verbatim>\<open>command:user\<close> and \<^verbatim>\<open>command:pass\<close> hooks (the flag of
  \<^verbatim>\<open>PassSuccess\<close> says whether the initial directory and the root were resolved);
  \<^verbatim>\<open>SecureStarted\<close> is \<^verbatim>\<open>switchToSecure\<close>; \<^verbatim>\<open>PoolCallback\<close> is the callback of
  \<^verbatim>\<open>createDataConnection\<close> (\<^verbatim>\<open>None\<close> for an error, the port otherwise);
  \<^verbatim>\<open>DataSocketError\<close> and \<^verbatim>\<open>DataSocketOver\<close> are the \<^verbatim>\<open>error\<close> and the
  \<^verbatim>\<open>close\<close>/\<^verbatim>\<open>end\<close> handlers that \<^verbatim>\<open>_onDataConnection\<close> installs on the data socket;
  the three \<^verbatim>\<open>Active\<close> events are the handlers of \<^verbatim>\<open>_initiateData\<close>;
  \<^verbatim>\<open>QuitWritten\<close> is the callback of the 221 reply; \<^verbatim>\<open>ControlClose\<close> is \<^verbatim>\<open>_onClose\<close>.
\<close>

definition step :: "FtpConnection \<Rightarrow> event \<Rightarrow> FtpConnection \<times> action list" where
  "step s e =
     (case e of
        SocketData line \<Rightarrow> onData s line
      | UserSuccess \<Rightarrow>
          (s\<lparr>isWaitingForPassword := True\<rparr>, [Respond ''331 User name okay, need password.''])
      | UserFailure \<Rightarrow> (s, [Respond ''530 Not logged in.''])
      | PassSuccess name resolved \<Rightarrow>
          (if resolved
           then (s\<lparr>username := Some name\<rparr>, [Respond ''230 User logged in, proceed.''])
           else (s\<lparr>username := Some name\<rparr>,
                 [Respond ''421 Service not available, closing control connection.'',
                  CloseControlSocket]))
      | PassFailure \<Rightarrow> (s\<lparr>username := None\<rparr>, [Respond ''530 Not logged in.''])
      | SecureStarted \<Rightarrow> (s\<lparr>secure := True\<rparr>, [])
      | PoolCallback result \<Rightarrow>
          (case pendingPASV s of
             None \<Rightarrow> (s, [])
           | Some isExtendedPASV \<Rightarrow>
               (case result of
                  None \<Rightarrow>
                    (s\<lparr>isEstablishingDataConnection := False, pendingPASV := None\<rparr>,
                     [Respond ''421 Server was unable to open passive connection listener''])
                | Some p \<Rightarrow>
                    (s\<lparr>dataConnection := Some p, pendingPASV := None\<rparr>,
                     [Respond
                        (if isExtendedPASV
                         then ''229 Entering Extended Passive Mode (|||'' @ stringOfNat p @ ''|)''
                         else ''227 Entering Passive Mode ('' @ encodeAddress (serverHost s) p
                                @ '')'')])))
      | DataConnectionReady sock \<Rightarrow>
          (if dataConnection s = None then (s, []) else onDataConnection s sock)
      | DataConnectionError \<Rightarrow> (s, [])
      | DataConnectionClose \<Rightarrow> (s, [])
      | DataSocketError \<Rightarrow> (s\<lparr>dataSocket := None\<rparr>, [])
      | DataSocketOver \<Rightarrow>
          (if dataSocket s = None then (s, []) else (s\<lparr>dataSocket := None\<rparr>, []))
      | ActiveConnect sock \<Rightarrow> (s\<lparr>dataSocket := Some sock\<rparr>, [])
      | ActiveOver \<Rightarrow> (s\<lparr>dataSocket := None\<rparr>, [])
      | ActiveError sock \<Rightarrow> (s\<lparr>dataSocket := None\<rparr>, [CloseDataSocket sock])
      | QuitWritten \<Rightarrow>
          (case dataConnection s of
             None \<Rightarrow> (s, [CloseControlSocket])
           | Some c \<Rightarrow> (s\<lparr>dataConnection := None\<rparr>, [CloseControlSocket, DestroyDataConnection c]))
      | ControlClose \<Rightarrow>
          (let a1 = (case dataSocket s of None \<Rightarrow> [] | Some d \<Rightarrow> [CloseDataSocket d]);
               a2 = (case dataConnection s of None \<Rightarrow> [] | Some c \<Rightarrow> [DestroyDataConnection c])
           in (s\<lparr>dataSocket := None, dataConnection := None\<rparr>, a1 @ [CloseControlSocket] @ a2)))"

text \<open>A session's history: the callbacks in the order they arrive, the actions collected.\<close>

fun run :: "FtpConnection \<Rightarrow> event list \<Rightarrow> FtpConnection \<times> action list" where
  "run s [] = (s, [])"
| "run s (e # es) =
     (case step s e of (s1, out1) \<Rightarrow>
        (case run s1 es of (s2, out2) \<Rightarrow> (s2, out1 @ out2)))"

text \<open>The reply lines among the actions, in order.\<close>

definition replies :: "action list \<Rightarrow> string list" where
  "replies out = concat (map (\<lambda>a. case a of Respond r \<Rightarrow> [r] | _ \<Rightarrow> []) out)"

text \<open>
  The gate of \<^verbatim>\<open>_onData\<close> as a predicate: the line is not dropped and \<^verbatim>\<open>_execCommand\<close>
  is reached for this command.
\<close>

definition passesGate :: "FtpConnection \<Rightarrow> string \<Rightarrow> bool" where
  "passesGate s command =
     (\<not> hasQuit s \<and> command \<in> set COMMANDS_SUPPORTED \<and>
      (case allowedCommands s of None \<Rightarrow> True | Some allowed \<Rightarrow> command \<in> set allowed) \<and>
      (command \<in> set COMMANDS_NO_AUTH \<or>
         (secure s \<or> \<not> tlsOnly s) \<and> isAuthenticated s \<and>
         (\<not> doesRequireDataConnection command \<or> hasReceivedDataConnectionRequest s)))"

text \<open>A session on a server with no command whitelist and no TLS, and a successful login.\<close>

definition freshSession :: FtpConnection where
  "freshSession = newFtpConnection None False False ''127.0.0.1''"

definition login :: "event list" where
  "login = [SocketData ''USER alice'', UserSuccess,
            SocketData ''PASS secret'', PassSuccess ''alice'' True]"

text \<open>The events at which a transfer over the data socket ends: the socket's
  \<^verbatim>\<open>close\<close>/\<^verbatim>\<open>end\<close> and \<^verbatim>\<open>error\<close> handlers (passive and active), and the passive data
  connection's own \<^verbatim>\<open>close\<close> and \<^verbatim>\<open>error\<close>.\<close>

definition endsTransfer :: "event \<Rightarrow> bool" where
  "endsTransfer e =
     (case e of
        DataSocketError \<Rightarrow> True
      | DataSocketOver \<Rightarrow> True
      | ActiveOver \<Rightarrow> True
      | ActiveError sock \<Rightarrow> True
      | DataConnectionError \<Rightarrow> True
      | DataConnectionClose \<Rightarrow> True
      | _ \<Rightarrow> False)"


text \<open>A passive directory listing run to its end: PASV, the pool's callback with port
  44005, the client's dial-in, LIST, and the data socket closing.\<close>

definition passiveListing :: "event list" where
  "passiveListing = [SocketData ''PASV'', PoolCallback (Some 44005), DataConnectionReady 7,
                     SocketData ''LIST'']"

text \<open>The requests for a data channel that \<^verbatim>\<open>__PORT\<close> and \<^verbatim>\<open>__PASV\<close> answer themselves:
  PASV, PORT, EPRT, and EPSV with no argument or the argument 1.\<close>

definition asksDataChannel :: "string \<Rightarrow> string \<Rightarrow> bool" where
  "asksDataChannel command commandArg =
     (command = ''PASV'' \<or> command = ''PORT'' \<or> command = ''EPRT'' \<or>
      (command = ''EPSV'' \<and> (commandArg = [] \<or> commandArg = ''1'')))"

text \<open>What holds of every session as long as no PASV or EPSV has been accepted: no request
  to the pool is outstanding and no passive data connection is held.\<close>

definition noPassiveYet :: "FtpConnection \<Rightarrow> bool" where
  "noPassiveYet s =
     (hasReceivedPASV s \<or>
      (\<not> isEstablishingDataConnection s \<and> dataConnection s = None \<and> pendingPASV s = None))"

section \<open>Passive data connections, listeners and the pool (PassiveListenerPool.js)\<close>

definition WAIT_TIMEOUT :: nat where
  "WAIT_TIMEOUT = 9000"

datatype CONNECTION_STATE = WAITING | INITIALIZING_TLS | READY | CLOSED

datatype LISTENER_STATE = Listener_INITIALIZING | Listener_LISTENING | Listener_CLOSED

text \<open>An \<^verbatim>\<open>Error\<close> object: its message and the \<^verbatim>\<open>code\<close> property, when it has one.\<close>

record jsError =
  errMessage :: string
  errCode :: "string option"

text \<open>\<^verbatim>\<open>listenError(errorCode, address, port)\<close>, made into an \<^verbatim>\<open>Error\<close>.\<close>

definition listenError :: "string \<Rightarrow> string \<Rightarrow> nat \<Rightarrow> jsError" where
  "listenError errorCode addr p =
     \<lparr> errMessage = ''listen '' @ errorCode @ '' '' @ addr @ '':'' @ stringOfNat p,
       errCode = Some errorCode \<rparr>"

definition timeoutError :: jsError where
  "timeoutError =
     \<lparr> errMessage = ''Expected a connection within '' @ stringOfNat WAIT_TIMEOUT @ ''ms'',
       errCode = None \<rparr>"

text \<open>
  A socket handed over by \<^verbatim>\<open>net.Server\<close>. \<^verbatim>\<open>sockAddress\<close> is what
  \<^verbatim>\<open>socket.address().address\<close> returns, the address the socket is bound to on this
  host; \<^verbatim>\<open>sockRemoteAddress\<close> is \<^verbatim>\<open>socket.remoteAddress\<close>, the peer (the property
  \<^verbatim>\<open>FtpConnection\<close> reads for the client's address).
\<close>

record netSocket =
  sockName :: nat
  sockAddress :: string
  sockRemoteAddress :: string

datatype pdcEvent =
    EvReady netSocket
  | EvError jsError
  | EvClose
  | EvListenerError jsError
  | EvListenerReady

text \<open>
  A passive data connection. Besides the fields of the class, \<^verbatim>\<open>closeHook\<close> holds the key
  of the \<^verbatim>\<open>close\<close> handler that \<^verbatim>\<open>Listener.listenForClient\<close> attaches (none on a
  connection it turned away), \<^verbatim>\<open>errorListeners\<close> counts the handlers attached for
  \<^verbatim>\<open>error\<close>, and \<^verbatim>\<open>emitted\<close> lists the events the connection has emitted to its
  handlers so far. \<^verbatim>\<open>timer\<close> is the deadline of the wait timer while it is armed.
\<close>

record PassiveDataConnection =
  port :: nat
  remoteAddress :: string
  state :: CONNECTION_STATE
  useTLS :: bool
  socket :: "netSocket option"
  timer :: "nat option"
  closeHook :: "string option"
  errorListeners :: nat
  emitted :: "pdcEvent list"

text \<open>
  A listener. \<^verbatim>\<open>_waitingConnections\<close> is a \<^verbatim>\<open>Map\<close> and \<^verbatim>\<open>_allConnections\<close> a
  \<^verbatim>\<open>Set\<close>, both kept in insertion order with connections referred to by their index in
  the store; \<^verbatim>\<open>server\<close> says whether \<^verbatim>\<open>_server\<close> is set; \<^verbatim>\<open>onListening\<close> counts the
  handlers that \<^verbatim>\<open>_stop\<close> has attached for \<^verbatim>\<open>listening\<close>.
\<close>

record Listener =
  listenerPort :: nat
  bindAddress :: string
  listenerState :: LISTENER_STATE
  waitingConnections :: "(string \<times> nat) list"
  allConnections :: "nat list"
  server :: bool
  stopping :: bool
  onListening :: nat

datatype task =
    TickListenerError nat jsError
  | TickListenerReady nat
  | TickClose nat

datatype effect =
    SocketDestroy netSocket
  | ServerListen nat string
  | ServerClose nat
  | ListenerEmitted nat string
  | Thrown jsError

text \<open>
  The objects of the module and what the event loop holds for them: the clock (in ms),
  the store of passive data connections, the listeners by port (the pool's
  \<^verbatim>\<open>_listeners\<close>), the callbacks queued with \<^verbatim>\<open>process.nextTick\<close>, and the trace of
  what happened outside the connections: sockets destroyed, servers bound and closed,
  events emitted by a listener, errors thrown out of a callback.
\<close>

record world =
  now :: nat
  connections :: "PassiveDataConnection list"
  listeners :: "nat \<Rightarrow> Listener option"
  nextTick :: "task list"
  trace :: "effect list"

definition emptyWorld :: world where
  "emptyWorld = \<lparr> now = 0, connections = [], listeners = (\<lambda>p. None), nextTick = [], trace = [] \<rparr>"

subsection \<open>Map operations (insertion-ordered, one entry per key)\<close>

definition mapHas :: "'k \<Rightarrow> ('k \<times> 'v) list \<Rightarrow> bool" where
  "mapHas k m = (map_of m k \<noteq> None)"

definition mapGet :: "'k \<Rightarrow> ('k \<times> 'v) list \<Rightarrow> 'v option" where
  "mapGet k m = map_of m k"

fun mapSet :: "'k \<Rightarrow> 'v \<Rightarrow> ('k \<times> 'v) list \<Rightarrow> ('k \<times> 'v) list" where
  "mapSet k v [] = [(k, v)]"
| "mapSet k v ((k', v') # m) = (if k' = k then (k, v) # m else (k', v') # mapSet k v m)"

definition mapDelete :: "'k \<Rightarrow> ('k \<times> 'v) list \<Rightarrow> ('k \<times> 'v) list" where
  "mapDelete k m = filter (\<lambda>kv. fst kv \<noteq> k) m"

definition setAdd :: "'a \<Rightarrow> 'a list \<Rightarrow> 'a list" where
  "setAdd x xs = (if x \<in> set xs then xs else xs @ [x])"

subsection \<open>Updating the store\<close>

definition updConn :: "nat \<Rightarrow> (PassiveDataConnection \<Rightarrow> PassiveDataConnection) \<Rightarrow> world \<Rightarrow> world" where
  "updConn c f w =
     (if c < length (connections w)
      then w\<lparr>connections := (connections w)[c := f (connections w ! c)]\<rparr>
      else w)"

definition updListener :: "nat \<Rightarrow> (Listener \<Rightarrow> Listener) \<Rightarrow> world \<Rightarrow> world" where
  "updListener p f w =
     (case listeners w p of
        None \<Rightarrow> w
      | Some l \<Rightarrow> w\<lparr>listeners := (listeners w)(p := Some (f l))\<rparr>)"

text \<open>\<^verbatim>\<open>connection.emit(event)\<close>.\<close>

definition emitOn :: "nat \<Rightarrow> pdcEvent \<Rightarrow> world \<Rightarrow> world" where
  "emitOn c ev w = updConn c (\<lambda>d. d\<lparr>emitted := emitted d @ [ev]\<rparr>) w"

definition addEffect :: "effect \<Rightarrow> world \<Rightarrow> world" where
  "addEffect e w = w\<lparr>trace := trace w @ [e]\<rparr>"

definition schedule :: "task \<Rightarrow> world \<Rightarrow> world" where
  "schedule t w = w\<lparr>nextTick := nextTick w @ [t]\<rparr>"

subsection \<open>Listener: stopping and starting the server\<close>

definition stopServer :: "nat \<Rightarrow> world \<Rightarrow> world" where
  "stopServer p w = updListener p (\<lambda>l. l\<lparr>server := False\<rparr>) (addEffect (ServerClose p) w)"

definition startServer :: "nat \<Rightarrow> world \<Rightarrow> world" where
  "startServer p w =
     (case listeners w p of
        None \<Rightarrow> w
      | Some l \<Rightarrow>
          updListener p (\<lambda>l. l\<lparr>server := True, listenerState := Listener_INITIALIZING\<rparr>)
            (addEffect (ServerListen p (bindAddress l)) w))"

text \<open>\<^verbatim>\<open>_stop\<close>: while the server is still binding, the stop is put off to the
  \<^verbatim>\<open>listening\<close> event.\<close>

definition stop :: "nat \<Rightarrow> world \<Rightarrow> world" where
  "stop p w =
     (case listeners w p of
        None \<Rightarrow> w
      | Some l \<Rightarrow>
          if stopping l then w
          else if listenerState l = Listener_INITIALIZING
          then updListener p (\<lambda>l. l\<lparr>stopping := True, onListening := onListening l + 1\<rparr>) w
          else updListener p (\<lambda>l. l\<lparr>listenerState := Listener_CLOSED\<rparr>)
                 (if listenerState l = Listener_LISTENING then stopServer p w else w))"

definition stopIfDone :: "nat \<Rightarrow> world \<Rightarrow> world" where
  "stopIfDone p w =
     (case listeners w p of
        None \<Rightarrow> w
      | Some l \<Rightarrow> if waitingConnections l \<noteq> [] then w else stop p w)"

text \<open>The \<^verbatim>\<open>close\<close> handler that \<^verbatim>\<open>listenForClient\<close> attaches to a connection it has
  registered under \<^verbatim>\<open>key\<close>.\<close>

definition listenerCloseHook :: "nat \<Rightarrow> nat \<Rightarrow> string \<Rightarrow> world \<Rightarrow> world" where
  "listenerCloseHook p c key w =
     stopIfDone p
       (updListener p
          (\<lambda>l. l\<lparr>allConnections := removeAll c (allConnections l),
                 waitingConnections := mapDelete key (waitingConnections l)\<rparr>) w)"

subsection \<open>PassiveDataConnection\<close>

text \<open>The constructor: state WAITING, no socket, the wait timer armed.\<close>

definition newPassiveDataConnection :: "nat \<Rightarrow> nat \<Rightarrow> string \<Rightarrow> bool \<Rightarrow> PassiveDataConnection" where
  "newPassiveDataConnection t p remote tls =
     \<lparr> port = p, remoteAddress = remote, state = WAITING, useTLS = tls, socket = None,
       timer = Some (t + WAIT_TIMEOUT), closeHook = None, errorListeners = 0,
       emitted = [] \<rparr>"

text \<open>\<^verbatim>\<open>_close\<close>: idempotent; emits \<^verbatim>\<open>close\<close>, which runs the listener's handler when
  there is one.\<close>

definition pdcClose :: "nat \<Rightarrow> world \<Rightarrow> world" where
  "pdcClose c w =
     (if c < length (connections w) then
        (if state (connections w ! c) = CLOSED then w
         else let w1 = emitOn c EvClose (updConn c (\<lambda>d. d\<lparr>state := CLOSED\<rparr>) w)
              in (case closeHook (connections w ! c) of
                    None \<Rightarrow> w1
                  | Some key \<Rightarrow> listenerCloseHook (port (connections w ! c)) c key w1))
      else w)"

text \<open>
  \<^verbatim>\<open>_onError\<close>: \<^verbatim>\<open>this.emit('error', error)\<close>, then \<^verbatim>\<open>process.nextTick(this._close)\<close>.
  An \<^verbatim>\<open>EventEmitter\<close> with no handler for \<^verbatim>\<open>error\<close> throws the error out of
  \<^verbatim>\<open>emit\<close>, and the statement after it is not reached.
\<close>

definition pdcOnError :: "nat \<Rightarrow> jsError \<Rightarrow> world \<Rightarrow> world" where
  "pdcOnError c err w =
     (if c < length (connections w) then
        (if errorListeners (connections w ! c) = 0 then addEffect (Thrown err) w
         else schedule (TickClose c) (emitOn c (EvError err) w))
      else w)"

text \<open>\<^verbatim>\<open>destroy\<close>: destroying the socket makes it emit \<^verbatim>\<open>close\<close> later (see
  \<^verbatim>\<open>socketClose\<close>); with no socket the connection closes at once.\<close>

definition pdcDestroy :: "nat \<Rightarrow> world \<Rightarrow> world" where
  "pdcDestroy c w =
     (if c < length (connections w) then
        (case socket (connections w ! c) of
           Some s \<Rightarrow> addEffect (SocketDestroy s) w
         | None \<Rightarrow> pdcClose c w)
      else w)"

text \<open>
  \<^verbatim>\<open>setSocket\<close>. With \<^verbatim>\<open>useTLS\<close> the method goes on to \<^verbatim>\<open>_upgradeConnection\<close>, which
  reads \<^verbatim>\<open>this.options\<close>, a property the class never sets: the read throws a
  \<^verbatim>\<open>TypeError\<close>.
\<close>

definition pdcSetSocket :: "nat \<Rightarrow> netSocket \<Rightarrow> world \<Rightarrow> world" where
  "pdcSetSocket c s w =
     (if c < length (connections w) then
        (if socket (connections w ! c) \<noteq> None
         then addEffect (Thrown \<lparr> errMessage =
                  ''PassiveDataConnection: method setSocket() called more than once.'',
                  errCode = None \<rparr>) w
         else let w1 = updConn c (\<lambda>d. d\<lparr>timer := None\<rparr>) w in
           if \<not> useTLS (connections w ! c)
           then emitOn c (EvReady s)
                  (updConn c (\<lambda>d. d\<lparr>socket := Some s, state := READY\<rparr>) w1)
           else addEffect (Thrown \<lparr> errMessage =
                    ''Cannot read property tlsOptions of undefined'', errCode = None \<rparr>)
                  (updConn c (\<lambda>d. d\<lparr>state := INITIALIZING_TLS\<rparr>) w1))
      else w)"

text \<open>The handlers for \<^verbatim>\<open>error\<close>, \<^verbatim>\<open>ready\<close> and \<^verbatim>\<open>close\<close> that the session attaches in
  the callback of \<^verbatim>\<open>createDataConnection\<close>; only the one for \<^verbatim>\<open>error\<close> changes what the
  connection does.\<close>

definition sessionAttach :: "nat \<Rightarrow> world \<Rightarrow> world" where
  "sessionAttach c w = updConn c (\<lambda>d. d\<lparr>errorListeners := errorListeners d + 1\<rparr>) w"

text \<open>The handlers \<^verbatim>\<open>setSocket\<close> attaches to the socket it adopts.\<close>

definition socketError :: "nat \<Rightarrow> jsError \<Rightarrow> world \<Rightarrow> world" where
  "socketError c err w = pdcOnError c err w"

definition socketClose :: "nat \<Rightarrow> world \<Rightarrow> world" where
  "socketClose c w = pdcClose c w"

text \<open>The wait timer: it runs its callback once the clock has reached the deadline, unless
  \<^verbatim>\<open>clearTimeout\<close> came first.\<close>

definition fireTimer :: "nat \<Rightarrow> world \<Rightarrow> world" where
  "fireTimer c w =
     (if c < length (connections w) then
        (case timer (connections w ! c) of
           None \<Rightarrow> w
         | Some deadline \<Rightarrow>
             if now w < deadline then w
             else pdcOnError c timeoutError (updConn c (\<lambda>d. d\<lparr>timer := None\<rparr>) w))
      else w)"

text \<open>The clock moves on.\<close>

definition advance :: "nat \<Rightarrow> world \<Rightarrow> world" where
  "advance ms w = w\<lparr>now := now w + ms\<rparr>"

text \<open>One callback queued with \<^verbatim>\<open>process.nextTick\<close>, and the whole queue in order.\<close>

definition runTick :: "task \<Rightarrow> world \<Rightarrow> world" where
  "runTick t w =
     (case t of
        TickListenerError c err \<Rightarrow> emitOn c (EvListenerError err) w
      | TickListenerReady c \<Rightarrow> emitOn c EvListenerReady w
      | TickClose c \<Rightarrow> pdcClose c w)"

definition drainTicks :: "world \<Rightarrow> world" where
  "drainTicks w = fold runTick (nextTick w) (w\<lparr>nextTick := []\<rparr>)"

subsection \<open>Listener\<close>

definition newListener :: "nat \<Rightarrow> string \<Rightarrow> Listener" where
  "newListener p addr =
     \<lparr> listenerPort = p, bindAddress = addr, listenerState = Listener_CLOSED,
       waitingConnections = [], allConnections = [], server = False, stopping = False,
       onListening = 0 \<rparr>"

text \<open>The key of \<^verbatim>\<open>_waitingConnections\<close>: \<^verbatim>\<open>port + '|' + remoteAddress\<close>.\<close>

definition connectionKey :: "nat \<Rightarrow> string \<Rightarrow> string" where
  "connectionKey p remote = stringOfNat p @ ''|'' @ remote"

text \<open>
  \<^verbatim>\<open>listenForClient\<close> on the listener of port \<^verbatim>\<open>p\<close>: the new connection is
  constructed first and returned in either case (as its index in the store).
\<close>

definition listenForClient :: "nat \<Rightarrow> string \<Rightarrow> bool \<Rightarrow> world \<Rightarrow> world \<times> nat" where
  "listenForClient p remote tls w =
     (let c = length (connections w);
          w1 = w\<lparr>connections := connections w @ [newPassiveDataConnection (now w) p remote tls]\<rparr>
      in case listeners w p of
           None \<Rightarrow> (w1, c)
         | Some l \<Rightarrow>
             let key = connectionKey p remote in
             if mapHas key (waitingConnections l)
             then (schedule (TickListenerError c (listenError ''EADDRINUSE'' (bindAddress l) p)) w1, c)
             else
               let w2 = updConn c (\<lambda>d. d\<lparr>closeHook := Some key\<rparr>)
                          (updListener p
                             (\<lambda>l. l\<lparr>allConnections := setAdd c (allConnections l),
                                    waitingConnections := mapSet key c (waitingConnections l)\<rparr>) w1)
               in if listenerState l = Listener_LISTENING then (schedule (TickListenerReady c) w2, c)
                  else if listenerState l = Listener_CLOSED then (startServer p w2, c)
                  else (w2, c))"

text \<open>\<^verbatim>\<open>_onStartingError\<close>: every waiter is told and dropped from the map.\<close>

definition onStartingError :: "nat \<Rightarrow> jsError \<Rightarrow> world \<Rightarrow> world" where
  "onStartingError p err w =
     (case listeners w p of
        None \<Rightarrow> w
      | Some l \<Rightarrow>
          updListener p (\<lambda>l. l\<lparr>waitingConnections := [], listenerState := Listener_CLOSED\<rparr>)
            (fold (\<lambda>kc. emitOn (snd kc) (EvListenerError err))
               (waitingConnections l) w))"

text \<open>\<^verbatim>\<open>_onRunningError\<close>: nothing in the module listens for \<^verbatim>\<open>error\<close> on a listener.\<close>

definition onRunningError :: "nat \<Rightarrow> jsError \<Rightarrow> world \<Rightarrow> world" where
  "onRunningError p err w =
     addEffect (Thrown err)
       (updListener p (\<lambda>l. l\<lparr>listenerState := Listener_CLOSED\<rparr>) (stopServer p w))"

text \<open>A stop that \<^verbatim>\<open>_stop\<close> put off: \<^verbatim>\<open>_stopping = false; _stop()\<close>.\<close>

definition deferredStop :: "nat \<Rightarrow> world \<Rightarrow> world" where
  "deferredStop p w = stop p (updListener p (\<lambda>l. l\<lparr>stopping := False\<rparr>) w)"

text \<open>\<^verbatim>\<open>_onReady\<close>: state LISTENING, the \<^verbatim>\<open>listening\<close> event (which runs the stops
  that were put off), then \<^verbatim>\<open>listenerReady\<close> on every waiter.\<close>

definition onReady :: "nat \<Rightarrow> world \<Rightarrow> world" where
  "onReady p w =
     (case listeners w p of
        None \<Rightarrow> w
      | Some l \<Rightarrow>
          let w1 = addEffect (ListenerEmitted p ''listening'')
                     (updListener p (\<lambda>l. l\<lparr>listenerState := Listener_LISTENING\<rparr>) w);
              w2 = ((deferredStop p) ^^ (onListening l)) w1
          in (case listeners w2 p of
                None \<Rightarrow> w2
              | Some l2 \<Rightarrow>
                  fold (\<lambda>kc. emitOn (snd kc) EvListenerReady)
                    (waitingConnections l2) w2))"

text \<open>
  \<^verbatim>\<open>_onConnection\<close>: the address looked up is \<^verbatim>\<open>socket.address().address\<close>, cut down to
  what follows its last colon when it has one.
\<close>

definition onConnection :: "nat \<Rightarrow> netSocket \<Rightarrow> world \<Rightarrow> world" where
  "onConnection p s w =
     (case listeners w p of
        None \<Rightarrow> w
      | Some l \<Rightarrow>
          let addr = sockAddress s;
              remote = (if CHR '':'' \<in> set addr then last (splitOn CHR '':'' addr) else addr);
              key = connectionKey p remote
          in (case mapGet key (waitingConnections l) of
                None \<Rightarrow> addEffect (SocketDestroy s) w
              | Some c \<Rightarrow>
                  pdcSetSocket c s
                    (updListener p
                       (\<lambda>l. l\<lparr>waitingConnections := mapDelete key (waitingConnections l)\<rparr>) w)))"

subsection \<open>PassiveListenerPool\<close>

record PassiveListenerPool =
  poolBindAddress :: string
  minPort :: nat
  maxPort :: nat

text \<open>The constructor: an option that is missing or falsy (an empty string, the port 0)
  gives way to the default.\<close>

definition newPassiveListenerPool ::
    "string option \<Rightarrow> nat option \<Rightarrow> nat option \<Rightarrow> PassiveListenerPool" where
  "newPassiveListenerPool addrOpt lo hi =
     \<lparr> poolBindAddress = (case addrOpt of None \<Rightarrow> ''0.0.0.0''
                           | Some a \<Rightarrow> if a = [] then ''0.0.0.0'' else a),
       minPort = (case lo of None \<Rightarrow> 44001 | Some n \<Rightarrow> if n = 0 then 44001 else n),
       maxPort = (case hi of None \<Rightarrow> 44010 | Some n \<Rightarrow> if n = 0 then 44010 else n) \<rparr>"

text \<open>The first \<^verbatim>\<open>listenerError\<close> or \<^verbatim>\<open>listenerReady\<close> emitted on a connection: what
  the handlers \<^verbatim>\<open>onError\<close> and \<^verbatim>\<open>onSuccess\<close> of \<^verbatim>\<open>createDataConnection\<close> react to.\<close>

fun firstSignal :: "pdcEvent list \<Rightarrow> pdcEvent option" where
  "firstSignal [] = None"
| "firstSignal (EvListenerError err # es) = Some (EvListenerError err)"
| "firstSignal (EvListenerReady # es) = Some EvListenerReady"
| "firstSignal (e # es) = firstSignal es"

definition signalOf :: "nat \<Rightarrow> world \<Rightarrow> pdcEvent option" where
  "signalOf c w =
     (if c < length (connections w) then firstSignal (emitted (connections w ! c)) else None)"

text \<open>
  One round of \<^verbatim>\<open>startListener\<close> up to the event its handlers wait for: the listener of
  the port is looked up or created, \<^verbatim>\<open>listenForClient\<close> is called, and the queued
  callbacks run. If that has not signalled the new connection, its listener is binding,
  and the outcome of the bind is the environment's: \<^verbatim>\<open>bind p\<close> is \<^verbatim>\<open>None\<close> when the
  server of port \<^verbatim>\<open>p\<close> comes to listen, or the code of the error it reports. Of that
  error only the code is the environment's; its message is written here with the
  template of \<^verbatim>\<open>listenError\<close>.
\<close>

definition attempt ::
    "PassiveListenerPool \<Rightarrow> (nat \<Rightarrow> string option) \<Rightarrow> string \<Rightarrow> bool \<Rightarrow> nat \<Rightarrow> world
       \<Rightarrow> world \<times> nat" where
  "attempt pool bind remote tls p w =
     (let w1 = (case listeners w p of
                  None \<Rightarrow> w\<lparr>listeners := (listeners w)(p := Some (newListener p (poolBindAddress pool)))\<rparr>
                | Some l \<Rightarrow> w)
      in case listenForClient p remote tls w1 of
           (w2, c) \<Rightarrow>
             let w3 = drainTicks w2 in
             if signalOf c w3 \<noteq> None then (w3, c)
             else (case bind p of
                     None \<Rightarrow> (onReady p w3, c)
                   | Some code \<Rightarrow>
                       (onStartingError p (listenError code (poolBindAddress pool) p) w3, c)))"

datatype outcome = Success nat | Failure jsError | NoCallback

text \<open>
  \<^verbatim>\<open>createDataConnection\<close>: \<^verbatim>\<open>startListener\<close> at \<^verbatim>\<open>minPort\<close>; \<^verbatim>\<open>onError\<close> moves on to the
  next port on EADDRINUSE below \<^verbatim>\<open>maxPort\<close> and hands every other error to the
  callback; \<^verbatim>\<open>onSuccess\<close> hands the connection to the callback.
\<close>

function startListener ::
    "PassiveListenerPool \<Rightarrow> (nat \<Rightarrow> string option) \<Rightarrow> string \<Rightarrow> bool \<Rightarrow> nat \<Rightarrow> world
       \<Rightarrow> world \<times> outcome" where
  "startListener pool bind remote tls p w =
     (case attempt pool bind remote tls p w of
        (w', c) \<Rightarrow>
          (case signalOf c w' of
             Some (EvListenerError err) \<Rightarrow>
               if errCode err = Some ''EADDRINUSE'' \<and> p < maxPort pool
               then startListener pool bind remote tls (p + 1) w'
               else (w', Failure err)
           | Some EvListenerReady \<Rightarrow> (w', Success c)
           | _ \<Rightarrow> (w', NoCallback)))"
  by pat_completeness auto
termination
  by (relation "measure (\<lambda>(pool, bind, remote, tls, p, w). maxPort pool - p)") auto

declare startListener.simps [simp del]

definition createDataConnection ::
    "PassiveListenerPool \<Rightarrow> (nat \<Rightarrow> string option) \<Rightarrow> string \<Rightarrow> bool \<Rightarrow> world
       \<Rightarrow> world \<times> outcome" where
  "createDataConnection pool bind remote tls w = startListener pool bind remote tls (minPort pool) w"

text \<open>A port is busy for a remote address when its listener holds a waiter under that
  address.\<close>

definition busy :: "world \<Rightarrow> string \<Rightarrow> nat \<Rightarrow> bool" where
  "busy w remote p =
     (case listeners w p of
        None \<Rightarrow> False
      | Some l \<Rightarrow> mapHas (connectionKey p remote) (waitingConnections l))"

text \<open>The server of a port is listening already.\<close>

definition listening :: "world \<Rightarrow> nat \<Rightarrow> bool" where
  "listening w p =
     (case listeners w p of
        None \<Rightarrow> False
      | Some l \<Rightarrow> listenerState l = Listener_LISTENING)"



subsection \<open>A pool at work\<close>

text \<open>
  A pool on 10.0.0.1 with the ports 44001 to 44003, an environment in which every bind
  succeeds, and the worlds after one, two and three requests for the remote address
  10.0.0.2, each made with an empty callback queue.
\<close>

definition poolA :: PassiveListenerPool where
  "poolA = newPassiveListenerPool (Some ''10.0.0.1'') (Some 44001) (Some 44003)"

definition bindOk :: "nat \<Rightarrow> string option" where
  "bindOk p = None"


definition world1 :: world where
  "world1 = fst (createDataConnection poolA bindOk ''10.0.0.2'' False emptyWorld)"

definition world2 :: world where
  "world2 = fst (createDataConnection poolA bindOk ''10.0.0.2'' False world1)"




text \<open>Every listener's map holds each key once.\<close>

definition keysDistinct :: "world \<Rightarrow> bool" where
  "keysDistinct w =
     (\<forall>q. case listeners w q of
             None \<Rightarrow> True
           | Some l \<Rightarrow> distinct (map fst (waitingConnections l)))"

text \<open>
  The world after one request made the way \<^verbatim>\<open>__PASV\<close> makes it, with the server's own
  host (here 10.0.0.1) as the address; a socket accepted from the client 10.0.0.2 and one
  from a stranger 10.0.0.99, both bound to 10.0.0.1 on this side.
\<close>

definition worldHost :: world where
  "worldHost = fst (createDataConnection poolA bindOk ''10.0.0.1'' False emptyWorld)"

definition clientSocket :: netSocket where
  "clientSocket = \<lparr> sockName = 1, sockAddress = ''10.0.0.1'', sockRemoteAddress = ''10.0.0.2'' \<rparr>"

definition strangerSocket :: netSocket where
  "strangerSocket = \<lparr> sockName = 2, sockAddress = ''10.0.0.1'', sockRemoteAddress = ''10.0.0.99'' \<rparr>"

section \<open>Properties of the control session\<close>

text \<open>The defining equations, collected for evaluating the model on concrete input.\<close>

lemmas cmd_defs = cmdPORT_def cmdEPRT_def cmdPASV_def cmdEPSV_def cmdUSER_def cmdPASS_def
  cmdQUIT_def cmdAUTH_def cmdPBSZ_def cmdPROT_def cmdFEAT_def cmdOPTS_def cmdTYPE_def
  cmdSTAT_def

lemmas js_defs = isDigit_def isWhiteSpace_def trim_def toUpperChar_def toUpperCase_def
  digitValue_def digitsValue_def parseInt10_def digitChar_def stringOfNat.simps jsToString_def
  jsIndex_def jsGreater_def jsShiftLeft_def jsAdd_def ENCODED_ADDRESS_def decodeAddress_def
  encodeAddress_def takeDigits_def expectChar_def matchEPRT_def parseEPRT_def

lemmas session_defs = COMMANDS_SUPPORTED_def COMMANDS_NO_AUTH_def
  COMMANDS_REQUIRE_DATA_SOCKET_def newFtpConnection_def isAuthenticated_def
  doesRequireDataConnection_def hasReceivedDataConnectionRequest_def cmd_defs CRLF_def
  execCommand_def dispatch_def parseCommand_def onData_def onDataConnection_def step_def
  replies_def passesGate_def freshSession_def login_def passiveListing_def
  asksDataChannel_def endsTransfer_def

subsection \<open>What the address decoder returns\<close>

lemma decodeAddress_port_NaN:
  "decodeAddress encoded = Some a \<Longrightarrow> addrPort a = NaN"
  by (auto simp: decodeAddress_def ENCODED_ADDRESS_def jsIndex_def jsAdd_def Let_def
      split: if_splits jsval.splits)

text \<open>
  C1. The claim: for every valid PORT argument \<^verbatim>\<open>h1,h2,h3,h4,p1,p2\<close> the decoded endpoint has
  port \<^verbatim>\<open>p1*256 + p2\<close>, and that pair is what the session stores before replying 200.
  The code does otherwise: \<^verbatim>\<open>decodeAddress\<close> reads \<^verbatim>\<open>octets[5]\<close> and \<^verbatim>\<open>octets[6]\<close> of a
  six-element array, so whenever it accepts an argument the port it returns is
  \<^verbatim>\<open>NaN\<close>; \<^verbatim>\<open>__PORT\<close> (in sub-state NONE) then stores the decoded host together with
  \<^verbatim>\<open>NaN\<close> as \<^verbatim>\<open>dataPort\<close> and replies 200.
\<close>

theorem C1_port_is_NaN:
  assumes "decodeAddress encoded = Some a"
      and "\<not> hasReceivedPASV s" and "\<not> hasReceivedPORT s"
  shows "addrPort a = NaN \<and>
         cmdPORT s encoded =
           (s\<lparr>hasReceivedPORT := True, dataHost := Some (addrHost a), dataPort := NaN\<rparr>,
            [Respond ''200 OK''])"
proof -
  from assms(1) have n: "addrPort a = NaN" by (rule decodeAddress_port_NaN)
  with assms show ?thesis unfolding cmdPORT_def by (simp add: Let_def)
qed

theorem C1_port_is_NaN_witness:
  "decodeAddress ''127,0,0,1,20,0'' = Some \<lparr>addrHost = ''127.0.0.1'', addrPort = NaN\<rparr> \<and>
   \<not> hasReceivedPASV (fst (run freshSession login)) \<and>
   \<not> hasReceivedPORT (fst (run freshSession login)) \<and>
   cmdPORT (fst (run freshSession login)) ''127,0,0,1,20,0'' =
     ((fst (run freshSession login))
        \<lparr>hasReceivedPORT := True, dataHost := Some ''127.0.0.1'', dataPort := NaN\<rparr>,
      [Respond ''200 OK'']) \<and>
   NaN \<noteq> JNum (20 * 256 + 0) \<and>
   replies (snd (run freshSession (login @ [SocketData ''PORT 127,0,0,1,20,0''])))
     = [''331 User name okay, need password.'', ''230 User logged in, proceed.'', ''200 OK'']"
proof -
  have d: "decodeAddress ''127,0,0,1,20,0'' = Some \<lparr>addrHost = ''127.0.0.1'', addrPort = NaN\<rparr>"
    by (simp add: js_defs)
  have p: "\<not> hasReceivedPASV (fst (run freshSession login))"
    by (simp add: js_defs session_defs)
  have q: "\<not> hasReceivedPORT (fst (run freshSession login))"
    by (simp add: js_defs session_defs)
  have r: "replies (snd (run freshSession (login @ [SocketData ''PORT 127,0,0,1,20,0''])))
     = [''331 User name okay, need password.'', ''230 User logged in, proceed.'', ''200 OK'']"
    by (simp add: js_defs session_defs)
  from C1_port_is_NaN [OF d p q] d p q r show ?thesis by simp
qed

subsection \<open>The two flags are never cleared\<close>


lemma cmd_keeps_PASV:
  "hasReceivedPASV s \<Longrightarrow> hasReceivedPASV (fst (cmdPORT s a))"
  "hasReceivedPASV s \<Longrightarrow> hasReceivedPASV (fst (cmdEPRT s a))"
  "hasReceivedPASV s \<Longrightarrow> hasReceivedPASV (fst (cmdPASV s c))"
  "hasReceivedPASV s \<Longrightarrow> hasReceivedPASV (fst (cmdEPSV s a c))"
  "hasReceivedPASV s \<Longrightarrow> hasReceivedPASV (fst (cmdUSER s a))"
  "hasReceivedPASV s \<Longrightarrow> hasReceivedPASV (fst (cmdPASS s a))"
  "hasReceivedPASV s \<Longrightarrow> hasReceivedPASV (fst (cmdQUIT s))"
  "hasReceivedPASV s \<Longrightarrow> hasReceivedPASV (fst (cmdAUTH s a))"
  "hasReceivedPASV s \<Longrightarrow> hasReceivedPASV (fst (cmdPBSZ s a))"
  "hasReceivedPASV s \<Longrightarrow> hasReceivedPASV (fst (cmdPROT s a))"
  "hasReceivedPASV s \<Longrightarrow> hasReceivedPASV (fst (cmdFEAT s))"
  "hasReceivedPASV s \<Longrightarrow> hasReceivedPASV (fst (cmdOPTS s a))"
  "hasReceivedPASV s \<Longrightarrow> hasReceivedPASV (fst (cmdTYPE s a))"
  "hasReceivedPASV s \<Longrightarrow> hasReceivedPASV (fst (cmdSTAT s a))"
  by (simp_all add: cmd_defs Let_def split: option.splits)

lemma cmd_keeps_PORT:
  "hasReceivedPORT s \<Longrightarrow> hasReceivedPORT (fst (cmdPORT s a))"
  "hasReceivedPORT s \<Longrightarrow> hasReceivedPORT (fst (cmdEPRT s a))"
  "hasReceivedPORT s \<Longrightarrow> hasReceivedPORT (fst (cmdPASV s c))"
  "hasReceivedPORT s \<Longrightarrow> hasReceivedPORT (fst (cmdEPSV s a c))"
  "hasReceivedPORT s \<Longrightarrow> hasReceivedPORT (fst (cmdUSER s a))"
  "hasReceivedPORT s \<Longrightarrow> hasReceivedPORT (fst (cmdPASS s a))"
  "hasReceivedPORT s \<Longrightarrow> hasReceivedPORT (fst (cmdQUIT s))"
  "hasReceivedPORT s \<Longrightarrow> hasReceivedPORT (fst (cmdAUTH s a))"
  "hasReceivedPORT s \<Longrightarrow> hasReceivedPORT (fst (cmdPBSZ s a))"
  "hasReceivedPORT s \<Longrightarrow> hasReceivedPORT (fst (cmdPROT s a))"
  "hasReceivedPORT s \<Longrightarrow> hasReceivedPORT (fst (cmdFEAT s))"
  "hasReceivedPORT s \<Longrightarrow> hasReceivedPORT (fst (cmdOPTS s a))"
  "hasReceivedPORT s \<Longrightarrow> hasReceivedPORT (fst (cmdTYPE s a))"
  "hasReceivedPORT s \<Longrightarrow> hasReceivedPORT (fst (cmdSTAT s a))"
  by (simp_all add: cmd_defs Let_def split: option.splits)

lemma execCommand_keeps_PASV:
  "hasReceivedPASV s \<Longrightarrow> hasReceivedPASV (fst (execCommand s c a))"
  unfolding execCommand_def by (simp add: cmd_keeps_PASV)

lemma execCommand_keeps_PORT:
  "hasReceivedPORT s \<Longrightarrow> hasReceivedPORT (fst (execCommand s c a))"
  unfolding execCommand_def by (simp add: cmd_keeps_PORT)

lemma dispatch_keeps_PASV:
  "hasReceivedPASV s \<Longrightarrow> hasReceivedPASV (fst (dispatch s c a))"
  unfolding dispatch_def by (simp add: execCommand_keeps_PASV)

lemma dispatch_keeps_PORT:
  "hasReceivedPORT s \<Longrightarrow> hasReceivedPORT (fst (dispatch s c a))"
  unfolding dispatch_def by (simp add: execCommand_keeps_PORT)

lemma onData_keeps_PASV:
  "hasReceivedPASV s \<Longrightarrow> hasReceivedPASV (fst (onData s line))"
  unfolding onData_def by (cases "parseCommand line") (simp add: dispatch_keeps_PASV)

lemma onData_keeps_PORT:
  "hasReceivedPORT s \<Longrightarrow> hasReceivedPORT (fst (onData s line))"
  unfolding onData_def by (cases "parseCommand line") (simp add: dispatch_keeps_PORT)

lemma step_keeps_PASV:
  "hasReceivedPASV s \<Longrightarrow> hasReceivedPASV (fst (step s e))"
  by (cases e)
    (simp_all add: step_def onData_keeps_PASV onDataConnection_def Let_def split: option.splits)

lemma step_keeps_PORT:
  "hasReceivedPORT s \<Longrightarrow> hasReceivedPORT (fst (step s e))"
  by (cases e)
    (simp_all add: step_def onData_keeps_PORT onDataConnection_def Let_def split: option.splits)

lemma run_keeps_PASV:
  "hasReceivedPASV s \<Longrightarrow> hasReceivedPASV (fst (run s es))"
proof (induction es arbitrary: s)
  case Nil
  then show ?case by simp
next
  case (Cons e es)
  from Cons.prems have "hasReceivedPASV (fst (step s e))" by (rule step_keeps_PASV)
  then have "hasReceivedPASV (fst (run (fst (step s e)) es))" by (rule Cons.IH)
  then show ?case by (simp add: case_prod_beta)
qed

lemma run_keeps_PORT:
  "hasReceivedPORT s \<Longrightarrow> hasReceivedPORT (fst (run s es))"
proof (induction es arbitrary: s)
  case Nil
  then show ?case by simp
next
  case (Cons e es)
  from Cons.prems have "hasReceivedPORT (fst (step s e))" by (rule step_keeps_PORT)
  then have "hasReceivedPORT (fst (run (fst (step s e)) es))" by (rule Cons.IH)
  then show ?case by (simp add: case_prod_beta)
qed

lemma run_keeps_either:
  assumes "hasReceivedPASV s \<or> hasReceivedPORT s"
  shows "hasReceivedPASV (fst (run s es)) \<or> hasReceivedPORT (fst (run s es))"
  using assms run_keeps_PASV [of s es] run_keeps_PORT [of s es] by blast

subsection \<open>The gate and the refusals behind it\<close>

lemma gate_exec:
  assumes "passesGate s command" and "parseCommand line = (command, commandArg)"
  shows "onData s line = execCommand s command commandArg"
proof -
  from assms(1) have q: "\<not> hasQuit s" and sup: "command \<in> set COMMANDS_SUPPORTED"
    and al: "(case allowedCommands s of None \<Rightarrow> True | Some allowed \<Rightarrow> command \<in> set allowed)"
    and rest: "command \<in> set COMMANDS_NO_AUTH \<or>
         (secure s \<or> \<not> tlsOnly s) \<and> isAuthenticated s \<and>
         (\<not> doesRequireDataConnection command \<or> hasReceivedDataConnectionRequest s)"
    unfolding passesGate_def by blast+
  from al have al': "\<not> (case allowedCommands s of None \<Rightarrow> False
                          | Some allowed \<Rightarrow> command \<notin> set allowed)"
    by (cases "allowedCommands s") simp_all
  have "dispatch s command commandArg = execCommand s command commandArg"
    unfolding dispatch_def using sup al' rest by auto
  with q assms(2) show ?thesis unfolding onData_def by simp
qed

lemma refused_503:
  assumes "hasReceivedPASV s \<or> hasReceivedPORT s"
      and "command = ''PASV'' \<or> command = ''PORT'' \<or> command = ''EPRT'' \<or>
           (command = ''EPSV'' \<and> (commandArg = [] \<or> commandArg = ''1''))"
  shows "execCommand s command commandArg = (s, [Respond ''503 Bad sequence of commands.''])"
proof -
  have p: "cmdPORT s commandArg = (s, [Respond ''503 Bad sequence of commands.''])"
    using assms(1) unfolding cmdPORT_def by simp
  have v: "cmdPASV s command = (s, [Respond ''503 Bad sequence of commands.''])"
    using assms(1) unfolding cmdPASV_def by simp
  from assms(2) consider "command = ''PASV''" | "command = ''PORT''" | "command = ''EPRT''"
    | "command = ''EPSV''" "commandArg = [] \<or> commandArg = ''1''" by blast
  then show ?thesis
  proof cases
    case 1
    then show ?thesis unfolding execCommand_def using v by simp
  next
    case 2
    then show ?thesis unfolding execCommand_def using p by simp
  next
    case 3
    then show ?thesis unfolding execCommand_def cmdEPRT_def using p by simp
  next
    case 4
    then show ?thesis unfolding execCommand_def cmdEPSV_def using v by auto
  qed
qed

lemma epsv_202:
  assumes "commandArg \<noteq> []" and "commandArg \<noteq> ''1''"
  shows "execCommand s ''EPSV'' commandArg = (s, [Respond ''202 Not supported''])"
  using assms unfolding execCommand_def cmdEPSV_def by simp

lemma refused_on_line:
  assumes "hasReceivedPASV s \<or> hasReceivedPORT s"
      and "passesGate s command" and "parseCommand line = (command, commandArg)"
      and "command = ''PASV'' \<or> command = ''PORT'' \<or> command = ''EPRT'' \<or>
           (command = ''EPSV'' \<and> (commandArg = [] \<or> commandArg = ''1''))"
  shows "onData s line = (s, [Respond ''503 Bad sequence of commands.''])"
  using gate_exec [OF assms(2,3)] refused_503 [OF assms(1,4)] by simp

lemma refused_asks:
  assumes "hasReceivedPASV s \<or> hasReceivedPORT s"
      and "passesGate s command" and "parseCommand line = (command, commandArg)"
      and "asksDataChannel command commandArg"
  shows "onData s line = (s, [Respond ''503 Bad sequence of commands.''])"
  using refused_on_line [OF assms(1,2,3)] assms(4) unfolding asksDataChannel_def by blast

lemma endsTransfer_frame:
  assumes "endsTransfer e"
  shows "hasReceivedPASV (fst (step s e)) = hasReceivedPASV s"
    and "hasReceivedPORT (fst (step s e)) = hasReceivedPORT s"
    and "dataHost (fst (step s e)) = dataHost s"
    and "dataPort (fst (step s e)) = dataPort s"
  using assms by (cases e; simp add: endsTransfer_def step_def)+

text \<open>
  C3. The claim: whenever a transfer terminates, the data sub-state is reset to NONE (both
  flags cleared, the stored active-mode address dropped), so that the next PASV, EPSV, PORT
  or EPRT is accepted. The code has no such reset: the handlers that run when a transfer
  ends only forget the data socket. Amended: when a transfer ends (the data socket's
  close, end or error handler, or the passive data connection's close or error), the
  flags \<^verbatim>\<open>_hasReceivedPASV\<close> and \<^verbatim>\<open>_hasReceivedPORT\<close> and the stored
  \<^verbatim>\<open>dataHost\<close>/\<^verbatim>\<open>dataPort\<close> are left as they were; so if PASV or PORT had been received,
  the next PASV, PORT or EPRT (or EPSV with no argument or 1) that passes the dispatch
  gate is still refused with 503.
\<close>

theorem C3_transfer_end_keeps_substate:
  assumes "endsTransfer e"
      and "hasReceivedPASV s \<or> hasReceivedPORT s"
      and "passesGate (fst (step s e)) command"
      and "parseCommand line = (command, commandArg)"
      and "asksDataChannel command commandArg"
  shows "hasReceivedPASV (fst (step s e)) = hasReceivedPASV s \<and>
         hasReceivedPORT (fst (step s e)) = hasReceivedPORT s \<and>
         dataHost (fst (step s e)) = dataHost s \<and>
         dataPort (fst (step s e)) = dataPort s \<and>
         onData (fst (step s e)) line =
           (fst (step s e), [Respond ''503 Bad sequence of commands.''])"
proof -
  note f = endsTransfer_frame [OF assms(1), of s]
  from assms(2) f(1,2)
  have "hasReceivedPASV (fst (step s e)) \<or> hasReceivedPORT (fst (step s e))" by simp
  from refused_asks [OF this assms(3,4,5)] f(1,2,3,4) show ?thesis by simp
qed

theorem C3_transfer_end_keeps_substate_witness:
  "endsTransfer DataSocketOver \<and>
   hasReceivedPASV (fst (run freshSession (login @ passiveListing))) \<and>
   dataSocket (fst (run freshSession (login @ passiveListing))) = Some 7 \<and>
   passesGate (fst (step (fst (run freshSession (login @ passiveListing))) DataSocketOver)) ''PASV'' \<and>
   parseCommand ''PASV'' = (''PASV'', []) \<and>
   asksDataChannel ''PASV'' [] \<and>
   hasReceivedPASV (fst (step (fst (run freshSession (login @ passiveListing))) DataSocketOver)) \<and>
   onData (fst (step (fst (run freshSession (login @ passiveListing))) DataSocketOver)) ''PASV'' =
     (fst (step (fst (run freshSession (login @ passiveListing))) DataSocketOver),
      [Respond ''503 Bad sequence of commands.''])"
proof -
  have a: "endsTransfer DataSocketOver" by (simp add: js_defs session_defs)
  have b: "hasReceivedPASV (fst (run freshSession (login @ passiveListing)))" by (simp add: js_defs session_defs)
  have b': "dataSocket (fst (run freshSession (login @ passiveListing))) = Some 7" by (simp add: js_defs session_defs)
  have c: "passesGate (fst (step (fst (run freshSession (login @ passiveListing))) DataSocketOver)) ''PASV''"
    by (simp add: js_defs session_defs)
  have d: "parseCommand ''PASV'' = (''PASV'', [])" by (simp add: js_defs session_defs)
  have e: "asksDataChannel ''PASV'' []" by (simp add: js_defs session_defs)
  from C3_transfer_end_keeps_substate [OF a disjI1 [OF b] c d e] a b b' c d e
  show ?thesis by simp
qed

theorem C3_counterexample:
  "dataSocket (fst (run freshSession (login @ passiveListing @ [DataSocketOver]))) = None \<and>
   hasReceivedPASV (fst (run freshSession (login @ passiveListing @ [DataSocketOver]))) \<and>
   replies (snd (run freshSession (login @ passiveListing @ [DataSocketOver, SocketData ''PASV''])))
     = [''331 User name okay, need password.'', ''230 User logged in, proceed.'',
        ''227 Entering Passive Mode (127,0,0,1,171,229)'',
        ''503 Bad sequence of commands.''] \<and>
   replies (snd (run freshSession (login @ passiveListing @ [DataSocketOver, SocketData ''PORT 127,0,0,1,20,0''])))
     = [''331 User name okay, need password.'', ''230 User logged in, proceed.'',
        ''227 Entering Passive Mode (127,0,0,1,171,229)'',
        ''503 Bad sequence of commands.'']"
  by (simp add: js_defs session_defs)

text \<open>
  C5. The claim: once the data sub-state has left NONE, every further PASV, EPSV, PORT or
  EPRT until a transfer completes is answered 503. It fails for EPSV: \<^verbatim>\<open>__EPSV\<close> answers
  an argument other than 1 with 202 before it looks at the flags. Amended: once
  \<^verbatim>\<open>_hasReceivedPASV\<close> or \<^verbatim>\<open>_hasReceivedPORT\<close> is set it stays set whatever happens next
  (a transfer completing included), and from then on every PASV, PORT or EPRT, and every
  EPSV with no argument or the argument 1, that passes the dispatch gate is answered 503
  and changes nothing, while an EPSV with any other argument is answered 202.
\<close>

theorem C5_exclusivity:
  assumes "hasReceivedPASV s \<or> hasReceivedPORT s"
      and "passesGate (fst (run s es)) command"
      and "parseCommand line = (command, commandArg)"
  shows "(hasReceivedPASV (fst (run s es)) \<or> hasReceivedPORT (fst (run s es))) \<and>
         (asksDataChannel command commandArg \<longrightarrow>
            onData (fst (run s es)) line =
              (fst (run s es), [Respond ''503 Bad sequence of commands.''])) \<and>
         (command = ''EPSV'' \<and> commandArg \<noteq> [] \<and> commandArg \<noteq> ''1'' \<longrightarrow>
            onData (fst (run s es)) line = (fst (run s es), [Respond ''202 Not supported'']))"
proof -
  have k: "hasReceivedPASV (fst (run s es)) \<or> hasReceivedPORT (fst (run s es))"
    using assms(1) by (rule run_keeps_either)
  have a: "asksDataChannel command commandArg \<longrightarrow>
            onData (fst (run s es)) line =
              (fst (run s es), [Respond ''503 Bad sequence of commands.''])"
    using refused_asks [OF k assms(2,3)] by blast
  have b: "command = ''EPSV'' \<and> commandArg \<noteq> [] \<and> commandArg \<noteq> ''1'' \<longrightarrow>
            onData (fst (run s es)) line = (fst (run s es), [Respond ''202 Not supported''])"
    using gate_exec [OF assms(2,3)] epsv_202 [of commandArg "fst (run s es)"] by auto
  from k a b show ?thesis by blast
qed

theorem C5_exclusivity_witness:
  "hasReceivedPORT (fst (step (fst (run freshSession login)) (SocketData ''PORT 127,0,0,1,20,0''))) \<and>
   passesGate (fst (run (fst (step (fst (run freshSession login)) (SocketData ''PORT 127,0,0,1,20,0'')))
                 [SocketData ''NOOP'', SocketData ''LIST''])) ''PASV'' \<and>
   parseCommand ''pasv'' = (''PASV'', []) \<and>
   asksDataChannel ''PASV'' [] \<and>
   onData (fst (run (fst (step (fst (run freshSession login)) (SocketData ''PORT 127,0,0,1,20,0'')))
                 [SocketData ''NOOP'', SocketData ''LIST''])) ''pasv'' =
     (fst (run (fst (step (fst (run freshSession login)) (SocketData ''PORT 127,0,0,1,20,0'')))
                 [SocketData ''NOOP'', SocketData ''LIST'']),
      [Respond ''503 Bad sequence of commands.''])"
proof -
  have a: "hasReceivedPORT (fst (step (fst (run freshSession login))
              (SocketData ''PORT 127,0,0,1,20,0'')))"
    by (simp add: js_defs session_defs)
  have b: "passesGate (fst (run (fst (step (fst (run freshSession login))
              (SocketData ''PORT 127,0,0,1,20,0''))) [SocketData ''NOOP'', SocketData ''LIST''])) ''PASV''"
    by (simp add: js_defs session_defs)
  have c: "parseCommand ''pasv'' = (''PASV'', [])" by (simp add: js_defs session_defs)
  have d: "asksDataChannel ''PASV'' []" by (simp add: asksDataChannel_def)
  from C5_exclusivity [OF disjI2 [OF a] b c] a b c d show ?thesis by blast
qed

theorem C5_counterexample:
  "hasReceivedPORT (fst (run freshSession (login @ [SocketData ''PORT 127,0,0,1,20,0'']))) \<and>
   replies (snd (run freshSession
       (login @ [SocketData ''PORT 127,0,0,1,20,0'', SocketData ''EPSV 2''])))
     = [''331 User name okay, need password.'', ''230 User logged in, proceed.'',
        ''200 OK'', ''202 Not supported'']"
  by (simp add: js_defs session_defs)

text \<open>
  C10. The claim: in sub-state NONE a PORT whose argument fails to parse is answered 501 but
  still marks PORT as received, so every subsequent PASV, EPSV, PORT or EPRT is refused
  with 503 although no address was stored. It fails for EPSV with an argument other than
  1, which is answered 202. Amended: such a PORT that passes the gate is answered 501, sets
  \<^verbatim>\<open>_hasReceivedPORT\<close> and leaves \<^verbatim>\<open>dataHost\<close> and \<^verbatim>\<open>dataPort\<close> as they were; whatever
  happens next, every later PASV, PORT or EPRT, and every EPSV with no argument or the
  argument 1, that passes the gate is refused with 503.
\<close>

theorem C10_failed_PORT_blocks:
  assumes "\<not> hasReceivedPASV s" and "\<not> hasReceivedPORT s"
      and "decodeAddress portArg = None"
      and "passesGate s ''PORT''" and "parseCommand first = (''PORT'', portArg)"
      and "passesGate (fst (run (fst (onData s first)) es)) command"
      and "parseCommand line = (command, commandArg)"
      and "asksDataChannel command commandArg"
  shows "onData s first = (s\<lparr>hasReceivedPORT := True\<rparr>, [Respond ''501 Bad argument to PORT'']) \<and>
         dataHost (fst (onData s first)) = dataHost s \<and>
         dataPort (fst (onData s first)) = dataPort s \<and>
         onData (fst (run (fst (onData s first)) es)) line =
           (fst (run (fst (onData s first)) es), [Respond ''503 Bad sequence of commands.''])"
proof -
  have "execCommand s ''PORT'' portArg =
          (s\<lparr>hasReceivedPORT := True\<rparr>, [Respond ''501 Bad argument to PORT''])"
    using assms(1,2,3) unfolding execCommand_def cmdPORT_def by (simp add: Let_def)
  with gate_exec [OF assms(4,5)]
  have 1: "onData s first = (s\<lparr>hasReceivedPORT := True\<rparr>, [Respond ''501 Bad argument to PORT''])"
    by simp
  then have "hasReceivedPORT (fst (onData s first))" by simp
  then have "hasReceivedPASV (fst (run (fst (onData s first)) es)) \<or>
             hasReceivedPORT (fst (run (fst (onData s first)) es))"
    using run_keeps_PORT by blast
  from refused_asks [OF this assms(6,7,8)] 1 show ?thesis by simp
qed

theorem C10_failed_PORT_blocks_witness:
  "\<not> hasReceivedPASV (fst (run freshSession login)) \<and>
   \<not> hasReceivedPORT (fst (run freshSession login)) \<and>
   decodeAddress ''1,2,3'' = None \<and>
   passesGate (fst (run freshSession login)) ''PORT'' \<and>
   parseCommand ''PORT 1,2,3'' = (''PORT'', ''1,2,3'') \<and>
   passesGate (fst (run (fst (onData (fst (run freshSession login)) ''PORT 1,2,3''))
                 [SocketData ''NOOP''])) ''PASV'' \<and>
   parseCommand ''PASV'' = (''PASV'', []) \<and>
   asksDataChannel ''PASV'' [] \<and>
   onData (fst (run freshSession login)) ''PORT 1,2,3'' =
     ((fst (run freshSession login))\<lparr>hasReceivedPORT := True\<rparr>,
      [Respond ''501 Bad argument to PORT'']) \<and>
   dataHost (fst (run freshSession login)) = None \<and>
   dataPort (fst (run freshSession login)) = JNum 20 \<and>
   dataHost (fst (onData (fst (run freshSession login)) ''PORT 1,2,3'')) =
     dataHost (fst (run freshSession login)) \<and>
   dataPort (fst (onData (fst (run freshSession login)) ''PORT 1,2,3'')) =
     dataPort (fst (run freshSession login)) \<and>
   onData (fst (run (fst (onData (fst (run freshSession login)) ''PORT 1,2,3''))
                 [SocketData ''NOOP''])) ''PASV'' =
     (fst (run (fst (onData (fst (run freshSession login)) ''PORT 1,2,3'')) [SocketData ''NOOP'']),
      [Respond ''503 Bad sequence of commands.''])"
proof -
  have a: "\<not> hasReceivedPASV (fst (run freshSession login))"
    by (simp add: js_defs session_defs)
  have b: "\<not> hasReceivedPORT (fst (run freshSession login))"
    by (simp add: js_defs session_defs)
  have c: "decodeAddress ''1,2,3'' = None" by (simp add: js_defs)
  have d: "passesGate (fst (run freshSession login)) ''PORT''"
    by (simp add: js_defs session_defs)
  have e: "parseCommand ''PORT 1,2,3'' = (''PORT'', ''1,2,3'')"
    by (simp add: js_defs session_defs)
  have f: "passesGate (fst (run (fst (onData (fst (run freshSession login)) ''PORT 1,2,3''))
                 [SocketData ''NOOP''])) ''PASV''"
    by (simp add: js_defs session_defs)
  have g: "parseCommand ''PASV'' = (''PASV'', [])" by (simp add: js_defs session_defs)
  have h: "asksDataChannel ''PASV'' []" by (simp add: asksDataChannel_def)
  have i: "dataHost (fst (run freshSession login)) = None"
    by (simp add: js_defs session_defs)
  have j: "dataPort (fst (run freshSession login)) = JNum 20"
    by (simp add: js_defs session_defs)
  from C10_failed_PORT_blocks [OF a b c d e f g h] a b c d e f g h i j show ?thesis by blast
qed

theorem C10_counterexample:
  "decodeAddress ''1,2,3'' = None \<and>
   replies (snd (run freshSession
       (login @ [SocketData ''PORT 1,2,3'', SocketData ''EPSV ALL''])))
     = [''331 User name okay, need password.'', ''230 User logged in, proceed.'',
        ''501 Bad argument to PORT'', ''202 Not supported'']"
  by (simp add: js_defs session_defs)

subsection \<open>The gate for commands that need a data socket\<close>

lemma cmd_noPassiveYet:
  "noPassiveYet s \<Longrightarrow> noPassiveYet (fst (cmdPORT s a))"
  "noPassiveYet s \<Longrightarrow> noPassiveYet (fst (cmdEPRT s a))"
  "noPassiveYet s \<Longrightarrow> noPassiveYet (fst (cmdPASV s c))"
  "noPassiveYet s \<Longrightarrow> noPassiveYet (fst (cmdEPSV s a c))"
  "noPassiveYet s \<Longrightarrow> noPassiveYet (fst (cmdUSER s a))"
  "noPassiveYet s \<Longrightarrow> noPassiveYet (fst (cmdPASS s a))"
  "noPassiveYet s \<Longrightarrow> noPassiveYet (fst (cmdQUIT s))"
  "noPassiveYet s \<Longrightarrow> noPassiveYet (fst (cmdAUTH s a))"
  "noPassiveYet s \<Longrightarrow> noPassiveYet (fst (cmdPBSZ s a))"
  "noPassiveYet s \<Longrightarrow> noPassiveYet (fst (cmdPROT s a))"
  "noPassiveYet s \<Longrightarrow> noPassiveYet (fst (cmdFEAT s))"
  "noPassiveYet s \<Longrightarrow> noPassiveYet (fst (cmdOPTS s a))"
  "noPassiveYet s \<Longrightarrow> noPassiveYet (fst (cmdTYPE s a))"
  "noPassiveYet s \<Longrightarrow> noPassiveYet (fst (cmdSTAT s a))"
  by (auto simp: noPassiveYet_def cmd_defs Let_def split: option.splits)

lemma execCommand_noPassiveYet:
  "noPassiveYet s \<Longrightarrow> noPassiveYet (fst (execCommand s c a))"
  unfolding execCommand_def by (simp add: cmd_noPassiveYet)

lemma onData_noPassiveYet:
  "noPassiveYet s \<Longrightarrow> noPassiveYet (fst (onData s line))"
  unfolding onData_def dispatch_def
  by (cases "parseCommand line") (simp add: execCommand_noPassiveYet)

lemma step_noPassiveYet:
  "noPassiveYet s \<Longrightarrow> noPassiveYet (fst (step s e))"
proof (cases e)
  case (SocketData line)
  assume "noPassiveYet s"
  then show ?thesis using SocketData onData_noPassiveYet by (simp add: step_def)
qed (auto simp: step_def noPassiveYet_def onDataConnection_def Let_def split: option.splits)

lemma run_noPassiveYet:
  "noPassiveYet s \<Longrightarrow> noPassiveYet (fst (run s es))"
proof (induction es arbitrary: s)
  case Nil
  then show ?case by simp
next
  case (Cons e es)
  from Cons.prems have "noPassiveYet (fst (step s e))" by (rule step_noPassiveYet)
  then have "noPassiveYet (fst (run (fst (step s e)) es))" by (rule Cons.IH)
  then show ?case by (simp add: case_prod_beta)
qed

lemma new_noPassiveYet: "noPassiveYet (newFtpConnection al t1 t2 h)"
  by (simp add: noPassiveYet_def newFtpConnection_def)

text \<open>
  C4. The claim: for an authenticated session and a command that needs a data socket
  (LIST, NLST, RETR, STOR, APPE) the gate replies 425 exactly when the data sub-state is
  NONE; in particular after a successful PORT such a command is dispatched. The code does
  otherwise: \<^verbatim>\<open>_hasReceivedDataConnectionRequest\<close> looks only at
  \<^verbatim>\<open>_isEstablishingDataConnection\<close> and \<^verbatim>\<open>dataConnection\<close>, which PORT leaves alone. So
  on every session reached from the constructor in sub-state NONE, a PORT that is accepted
  with 200 is followed by 425 for each of the five commands (as far as the whitelist
  lets the command through).
\<close>

theorem C4_PORT_then_425:
  assumes "s = fst (run (newFtpConnection allowed tlsConfigured tlsOnlyOpt hostOpt) es)"
      and "\<not> hasReceivedPASV s" and "\<not> hasReceivedPORT s"
      and "decodeAddress portArg = Some a"
      and "passesGate s ''PORT''" and "parseCommand first = (''PORT'', portArg)"
      and "command \<in> set COMMANDS_REQUIRE_DATA_SOCKET"
      and "case allowedCommands s of None \<Rightarrow> True | Some al \<Rightarrow> command \<in> set al"
      and "parseCommand line = (command, commandArg)"
  shows "onData s first =
           (s\<lparr>hasReceivedPORT := True, dataHost := Some (addrHost a), dataPort := NaN\<rparr>,
            [Respond ''200 OK'']) \<and>
         onData (fst (onData s first)) line =
           (fst (onData s first),
            [Respond ''425 Data connection not configured; send PASV or PORT''])"
proof -
  have "noPassiveYet s" unfolding assms(1) using new_noPassiveYet by (rule run_noPassiveYet)
  with assms(2) have np: "\<not> isEstablishingDataConnection s" "dataConnection s = None"
    unfolding noPassiveYet_def by blast+
  from assms(4) have n: "addrPort a = NaN" by (rule decodeAddress_port_NaN)
  have "execCommand s ''PORT'' portArg =
          (s\<lparr>hasReceivedPORT := True, dataHost := Some (addrHost a), dataPort := NaN\<rparr>,
           [Respond ''200 OK''])"
    using assms(2,3,4) n unfolding execCommand_def cmdPORT_def by (simp add: Let_def)
  with gate_exec [OF assms(5,6)]
  have 1: "onData s first =
           (s\<lparr>hasReceivedPORT := True, dataHost := Some (addrHost a), dataPort := NaN\<rparr>,
            [Respond ''200 OK''])" by simp
  define s' where "s' = s\<lparr>hasReceivedPORT := True, dataHost := Some (addrHost a), dataPort := NaN\<rparr>"
  from assms(5) have g: "\<not> hasQuit s \<and> (secure s \<or> \<not> tlsOnly s) \<and> isAuthenticated s"
    unfolding passesGate_def COMMANDS_NO_AUTH_def by auto
  from assms(7) have sup: "command \<in> set COMMANDS_SUPPORTED"
    and na: "command \<notin> set COMMANDS_NO_AUTH"
    unfolding COMMANDS_REQUIRE_DATA_SOCKET_def COMMANDS_SUPPORTED_def COMMANDS_NO_AUTH_def
    by auto
  from assms(8) have al: "\<not> (case allowedCommands s' of None \<Rightarrow> False
                               | Some al \<Rightarrow> command \<notin> set al)"
    unfolding s'_def by (cases "allowedCommands s") simp_all
  have auth: "isAuthenticated s'" "\<not> (\<not> secure s' \<and> tlsOnly s')" "\<not> hasQuit s'"
    using g unfolding s'_def isAuthenticated_def by auto
  have nr: "\<not> hasReceivedDataConnectionRequest s'"
    using np unfolding s'_def hasReceivedDataConnectionRequest_def by simp
  have rq: "doesRequireDataConnection command"
    using assms(7) unfolding doesRequireDataConnection_def .
  have "dispatch s' command commandArg =
          (s', [Respond ''425 Data connection not configured; send PASV or PORT''])"
    unfolding dispatch_def using sup na al auth nr rq by simp
  then have "onData s' line =
          (s', [Respond ''425 Data connection not configured; send PASV or PORT''])"
    unfolding onData_def using auth(3) assms(9) by simp
  with 1 show ?thesis unfolding s'_def by simp
qed

theorem C4_PORT_then_425_witness:
  "fst (run freshSession login) = fst (run (newFtpConnection None False False ''127.0.0.1'') login) \<and>
   \<not> hasReceivedPASV (fst (run freshSession login)) \<and>
   \<not> hasReceivedPORT (fst (run freshSession login)) \<and>
   decodeAddress ''127,0,0,1,20,0'' = Some \<lparr>addrHost = ''127.0.0.1'', addrPort = NaN\<rparr> \<and>
   passesGate (fst (run freshSession login)) ''PORT'' \<and>
   parseCommand ''PORT 127,0,0,1,20,0'' = (''PORT'', ''127,0,0,1,20,0'') \<and>
   ''LIST'' \<in> set COMMANDS_REQUIRE_DATA_SOCKET \<and>
   allowedCommands (fst (run freshSession login)) = None \<and>
   parseCommand ''LIST'' = (''LIST'', []) \<and>
   replies (snd (onData (fst (run freshSession login)) ''PORT 127,0,0,1,20,0'')) = [''200 OK''] \<and>
   onData (fst (onData (fst (run freshSession login)) ''PORT 127,0,0,1,20,0'')) ''LIST'' =
     (fst (onData (fst (run freshSession login)) ''PORT 127,0,0,1,20,0''),
      [Respond ''425 Data connection not configured; send PASV or PORT''])"
proof -
  have a: "fst (run freshSession login) = fst (run (newFtpConnection None False False ''127.0.0.1'') login)"
    by (simp add: freshSession_def)
  have b: "\<not> hasReceivedPASV (fst (run freshSession login))"
    by (simp add: js_defs session_defs)
  have c: "\<not> hasReceivedPORT (fst (run freshSession login))"
    by (simp add: js_defs session_defs)
  have d: "decodeAddress ''127,0,0,1,20,0'' = Some \<lparr>addrHost = ''127.0.0.1'', addrPort = NaN\<rparr>"
    by (simp add: js_defs)
  have e: "passesGate (fst (run freshSession login)) ''PORT''"
    by (simp add: js_defs session_defs)
  have f: "parseCommand ''PORT 127,0,0,1,20,0'' = (''PORT'', ''127,0,0,1,20,0'')"
    by (simp add: js_defs session_defs)
  have g: "''LIST'' \<in> set COMMANDS_REQUIRE_DATA_SOCKET"
    by (simp add: COMMANDS_REQUIRE_DATA_SOCKET_def)
  have h: "allowedCommands (fst (run freshSession login)) = None"
    by (simp add: js_defs session_defs)
  then have h': "case allowedCommands (fst (run freshSession login)) of None \<Rightarrow> True
                 | Some al \<Rightarrow> ''LIST'' \<in> set al" by simp
  have i: "parseCommand ''LIST'' = (''LIST'', [])" by (simp add: js_defs session_defs)
  note t = C4_PORT_then_425 [OF a b c d e f g h' i]
  from t have r: "replies (snd (onData (fst (run freshSession login)) ''PORT 127,0,0,1,20,0''))
                   = [''200 OK'']"
    by (simp add: replies_def)
  from t a b c d e f g h i r show ?thesis by blast
qed

subsection \<open>EPRT\<close>

lemma splitOn_nonempty: "splitOn sep s \<noteq> []"
  by (induction s) (auto split: list.splits)

lemma decodeAddress_bar: "decodeAddress (CHR ''|'' # rest) = None"
proof -
  obtain f fs where "splitOn CHR '','' rest = f # fs"
    using splitOn_nonempty [of "CHR '',''" rest] by (cases "splitOn CHR '','' rest") auto
  then have "\<not> ENCODED_ADDRESS (CHR ''|'' # rest)"
    by (simp add: ENCODED_ADDRESS_def isDigit_def)
  then show ?thesis by (simp add: decodeAddress_def)
qed


text \<open>
  C9. The claim: EPRT with address family 2 is answered 522, and an EPRT or PORT argument
  whose port is above 65535 or not positive is answered 501. The code does otherwise:
  \<^verbatim>\<open>__EPRT\<close> passes its argument to \<^verbatim>\<open>__PORT\<close>, whose decoder rejects everything that
  starts with a bar, so in sub-state NONE an EPRT for family 2 is answered
  \<^verbatim>\<open>501 Bad argument to PORT\<close> and marks PORT as received. The 522 reply exists only in
  \<^verbatim>\<open>_parseEPRT\<close>, which is never called.
\<close>

theorem C9_EPRT_family_2_gets_501:
  assumes "commandArg = CHR ''|'' # CHR ''2'' # CHR ''|'' # rest"
      and "\<not> hasReceivedPASV s" and "\<not> hasReceivedPORT s"
      and "passesGate s ''EPRT''" and "parseCommand line = (''EPRT'', commandArg)"
  shows "onData s line =
           (s\<lparr>hasReceivedPORT := True\<rparr>, [Respond ''501 Bad argument to PORT'']) \<and>
         parseEPRT commandArg =
           EprtReply ''522 Server cannot handle IPv6 EPRT commands, use (1)''"
proof -
  have "decodeAddress commandArg = None" unfolding assms(1) by (rule decodeAddress_bar)
  then have "execCommand s ''EPRT'' commandArg =
          (s\<lparr>hasReceivedPORT := True\<rparr>, [Respond ''501 Bad argument to PORT''])"
    using assms(2,3) unfolding execCommand_def cmdEPRT_def cmdPORT_def by (simp add: Let_def)
  with gate_exec [OF assms(4,5)]
  have 1: "onData s line =
           (s\<lparr>hasReceivedPORT := True\<rparr>, [Respond ''501 Bad argument to PORT''])" by simp
  have 2: "parseEPRT commandArg =
           EprtReply ''522 Server cannot handle IPv6 EPRT commands, use (1)''"
    unfolding assms(1) parseEPRT_def by simp
  from 1 2 show ?thesis by blast
qed

theorem C9_EPRT_family_2_gets_501_witness:
  "\<not> hasReceivedPASV (fst (run freshSession login)) \<and>
   \<not> hasReceivedPORT (fst (run freshSession login)) \<and>
   passesGate (fst (run freshSession login)) ''EPRT'' \<and>
   parseCommand ''EPRT |2|::1|5282|'' = (''EPRT'', ''|2|::1|5282|'') \<and>
   onData (fst (run freshSession login)) ''EPRT |2|::1|5282|'' =
     ((fst (run freshSession login))\<lparr>hasReceivedPORT := True\<rparr>,
      [Respond ''501 Bad argument to PORT'']) \<and>
   parseEPRT ''|2|::1|5282|'' =
     EprtReply ''522 Server cannot handle IPv6 EPRT commands, use (1)'' \<and>
   replies (snd (onData (fst (run freshSession login)) ''PORT 127,0,0,1,0,0'')) = [''200 OK'']"
proof -
  have a: "''|2|::1|5282|'' = CHR ''|'' # CHR ''2'' # CHR ''|'' # ''::1|5282|''" by simp
  have b: "\<not> hasReceivedPASV (fst (run freshSession login))"
    by (simp add: js_defs session_defs)
  have c: "\<not> hasReceivedPORT (fst (run freshSession login))"
    by (simp add: js_defs session_defs)
  have d: "passesGate (fst (run freshSession login)) ''EPRT''"
    by (simp add: js_defs session_defs)
  have e: "parseCommand ''EPRT |2|::1|5282|'' = (''EPRT'', ''|2|::1|5282|'')"
    by (simp add: js_defs session_defs)
  have f: "replies (snd (onData (fst (run freshSession login)) ''PORT 127,0,0,1,0,0'')) = [''200 OK'']"
    by (simp add: js_defs session_defs)
  from C9_EPRT_family_2_gets_501 [OF a b c d e] b c d e f show ?thesis by blast
qed


section \<open>Properties of the passive listener pool\<close>

subsection \<open>What each operation leaves alone\<close>

lemma updConn_sel [simp]:
  "listeners (updConn c f w) = listeners w"
  "nextTick (updConn c f w) = nextTick w"
  "trace (updConn c f w) = trace w"
  "now (updConn c f w) = now w"
  "length (connections (updConn c f w)) = length (connections w)"
  by (simp_all add: updConn_def)

lemma updConn_nth:
  "connections (updConn c f w) ! i =
     (if i = c \<and> c < length (connections w) then f (connections w ! c) else connections w ! i)"
  by (simp add: updConn_def)

lemma updListener_sel [simp]:
  "connections (updListener p f w) = connections w"
  "nextTick (updListener p f w) = nextTick w"
  "trace (updListener p f w) = trace w"
  "now (updListener p f w) = now w"
  by (simp_all add: updListener_def split: option.splits)

lemma updListener_listeners:
  "listeners (updListener p f w) q = (if q = p then map_option f (listeners w p) else listeners w q)"
  by (simp add: updListener_def split: option.splits)

lemma addEffect_sel [simp]:
  "connections (addEffect e w) = connections w"
  "listeners (addEffect e w) = listeners w"
  "nextTick (addEffect e w) = nextTick w"
  "now (addEffect e w) = now w"
  "trace (addEffect e w) = trace w @ [e]"
  by (simp_all add: addEffect_def)

lemma schedule_sel [simp]:
  "connections (schedule t w) = connections w"
  "listeners (schedule t w) = listeners w"
  "nextTick (schedule t w) = nextTick w @ [t]"
  "now (schedule t w) = now w"
  "trace (schedule t w) = trace w"
  by (simp_all add: schedule_def)

lemma emitOn_sel [simp]:
  "listeners (emitOn c ev w) = listeners w"
  "nextTick (emitOn c ev w) = nextTick w"
  "trace (emitOn c ev w) = trace w"
  "now (emitOn c ev w) = now w"
  "length (connections (emitOn c ev w)) = length (connections w)"
  by (simp_all add: emitOn_def)

lemma emitOn_nth:
  "connections (emitOn c ev w) ! i =
     (if i = c \<and> c < length (connections w)
      then (connections w ! c)\<lparr>emitted := emitted (connections w ! c) @ [ev]\<rparr>
      else connections w ! i)"
  by (simp add: emitOn_def updConn_nth)

text \<open>Emitting one event on every waiter of a list.\<close>

lemma fold_emitOn_sel [simp]:
  "listeners (fold (\<lambda>kc. emitOn (snd kc) ev) ws w) = listeners w"
  "nextTick (fold (\<lambda>kc. emitOn (snd kc) ev) ws w) = nextTick w"
  "trace (fold (\<lambda>kc. emitOn (snd kc) ev) ws w) = trace w"
  "length (connections (fold (\<lambda>kc. emitOn (snd kc) ev) ws w)) = length (connections w)"
  by (induction ws arbitrary: w; simp)+




lemma mapHas_mapSet: "mapHas k (mapSet k v m)"
  by (induction m) (auto simp: mapHas_def)

lemma mapSet_mem: "(k, v) \<in> set (mapSet k v m)"
  by (induction m) auto


text \<open>listenForClient when the key is taken.\<close>

lemma listenForClient_busy:
  assumes "listeners w p = Some l" and "mapHas (connectionKey p remote) (waitingConnections l)"
  shows "listenForClient p remote tls w =
           (w\<lparr>connections := connections w @ [newPassiveDataConnection (now w) p remote tls],
              nextTick := nextTick w @ [TickListenerError (length (connections w))
                                          (listenError ''EADDRINUSE'' (bindAddress l) p)]\<rparr>,
            length (connections w))"
  using assms by (simp add: listenForClient_def Let_def schedule_def)





lemma stopServer_sel [simp]:
  "connections (stopServer p w) = connections w"
  "nextTick (stopServer p w) = nextTick w"
  by (simp_all add: stopServer_def)

lemma stopServer_other: "q \<noteq> p \<Longrightarrow> listeners (stopServer p w) q = listeners w q"
  by (simp add: stopServer_def updListener_listeners)


lemma startServer_sel [simp]:
  "connections (startServer p w) = connections w"
  "nextTick (startServer p w) = nextTick w"
  by (simp_all add: startServer_def split: option.splits)

lemma startServer_other: "q \<noteq> p \<Longrightarrow> listeners (startServer p w) q = listeners w q"
  by (simp add: startServer_def updListener_listeners split: option.splits)

lemma startServer_waiting:
  "listeners w p = Some l \<Longrightarrow>
   \<exists>l'. listeners (startServer p w) p = Some l' \<and> waitingConnections l' = waitingConnections l"
  by (simp add: startServer_def updListener_listeners)

lemma stop_sel [simp]:
  "connections (stop p w) = connections w"
  "nextTick (stop p w) = nextTick w"
  by (simp_all add: stop_def split: option.splits)

lemma stop_other: "q \<noteq> p \<Longrightarrow> listeners (stop p w) q = listeners w q"
  by (simp add: stop_def updListener_listeners stopServer_other split: option.splits)


lemma deferredStop_sel [simp]:
  "connections (deferredStop p w) = connections w"
  "nextTick (deferredStop p w) = nextTick w"
  by (simp_all add: deferredStop_def)

lemma deferredStop_other: "q \<noteq> p \<Longrightarrow> listeners (deferredStop p w) q = listeners w q"
  by (simp add: deferredStop_def stop_other updListener_listeners)


lemma funpow_deferredStop_sel [simp]:
  "connections ((deferredStop p ^^ n) w) = connections w"
  "nextTick ((deferredStop p ^^ n) w) = nextTick w"
  by (induction n; simp)+

lemma funpow_deferredStop_other:
  "q \<noteq> p \<Longrightarrow> listeners ((deferredStop p ^^ n) w) q = listeners w q"
  by (induction n; simp add: deferredStop_other)




lemma listenForClient_free:
  assumes "listeners w p = Some l"
      and "\<not> mapHas (connectionKey p remote) (waitingConnections l)"
  shows "fst (listenForClient p remote tls w) = w2 \<Longrightarrow>
         snd (listenForClient p remote tls w) = length (connections w) \<and>
         connections w2 = connections w @
           [(newPassiveDataConnection (now w) p remote tls)
              \<lparr>closeHook := Some (connectionKey p remote)\<rparr>] \<and>
         (\<exists>l'. listeners w2 p = Some l' \<and>
               waitingConnections l' =
                 mapSet (connectionKey p remote) (length (connections w)) (waitingConnections l)) \<and>
         (\<forall>q. q \<noteq> p \<longrightarrow> listeners w2 q = listeners w q) \<and>
         nextTick w2 = nextTick w @
           (if listenerState l = Listener_LISTENING
            then [TickListenerReady (length (connections w))] else [])"
proof -
  assume f: "fst (listenForClient p remote tls w) = w2"
  define c where "c = length (connections w)"
  define key where "key = connectionKey p remote"
  define w1 where "w1 = w\<lparr>connections := connections w @ [newPassiveDataConnection (now w) p remote tls]\<rparr>"
  define wl where "wl = updListener p
                             (\<lambda>l. l\<lparr>allConnections := setAdd c (allConnections l),
                                    waitingConnections := mapSet key c (waitingConnections l)\<rparr>) w1"
  define wc where "wc = updConn c (\<lambda>d. d\<lparr>closeHook := Some key\<rparr>) wl"
  have l1: "listeners w1 p = Some l" unfolding w1_def using assms(1) by simp
  have lf: "listenForClient p remote tls w =
          (if listenerState l = Listener_LISTENING then (schedule (TickListenerReady c) wc, c)
           else if listenerState l = Listener_CLOSED then (startServer p wc, c)
           else (wc, c))"
    unfolding listenForClient_def using assms
    by (simp add: Let_def c_def [symmetric] key_def [symmetric] w1_def [symmetric]
        wl_def [symmetric] wc_def [symmetric])
  have conn: "connections wc = connections w @
           [(newPassiveDataConnection (now w) p remote tls)\<lparr>closeHook := Some key\<rparr>]"
    unfolding wc_def wl_def w1_def updConn_def c_def by simp
  have lis: "listeners wc p = Some (l\<lparr>allConnections := setAdd c (allConnections l),
                                    waitingConnections := mapSet key c (waitingConnections l)\<rparr>)"
    unfolding wc_def wl_def using l1 by (simp add: updListener_listeners)
  have mem: "(key, c) \<in> set (mapSet key c (waitingConnections l))" by (rule mapSet_mem)
  have oth: "\<forall>q. q \<noteq> p \<longrightarrow> listeners wc q = listeners w q"
    unfolding wc_def wl_def w1_def by (simp add: updListener_listeners)
  have nt: "nextTick wc = nextTick w" unfolding wc_def wl_def w1_def by simp
  consider (a) "listenerState l = Listener_LISTENING"
    | (b) "listenerState l = Listener_CLOSED" | (c) "listenerState l = Listener_INITIALIZING"
    by (cases "listenerState l") auto
  then show ?thesis
  proof cases
    case a
    with lf f have "w2 = schedule (TickListenerReady c) wc" by simp
    with a lf conn lis mem oth nt show ?thesis
      by (simp add: c_def key_def)
  next
    case b
    with lf f have w2: "w2 = startServer p wc" by simp
    from startServer_waiting [OF lis] obtain l' where
      "listeners (startServer p wc) p = Some l'"
      "waitingConnections l' = mapSet key c (waitingConnections l)" by auto
    with b lf conn mem oth nt w2 show ?thesis
      by (simp add: c_def key_def startServer_other)
  next
    case c
    with lf f have "w2 = wc" by simp
    with c lf conn lis mem oth nt show ?thesis
      by (simp add: c_def key_def)
  qed
qed











subsection \<open>The pool on concrete worlds\<close>

lemmas pool_defs = WAIT_TIMEOUT_def listenError_def timeoutError_def emptyWorld_def mapHas_def
  mapGet_def mapDelete_def setAdd_def updConn_def updListener_def emitOn_def addEffect_def
  schedule_def stopServer_def startServer_def stop_def stopIfDone_def listenerCloseHook_def
  newPassiveDataConnection_def pdcClose_def pdcOnError_def pdcDestroy_def pdcSetSocket_def
  sessionAttach_def socketError_def socketClose_def fireTimer_def advance_def runTick_def
  drainTicks_def newListener_def connectionKey_def listenForClient_def onStartingError_def
  onRunningError_def deferredStop_def onReady_def onConnection_def newPassiveListenerPool_def
  signalOf_def attempt_def startListener.simps createDataConnection_def busy_def listening_def
  poolA_def bindOk_def

lemma world1_eval:
  "world1 =
     \<lparr> now = 0,
       connections =
         [\<lparr> port = 44001, remoteAddress = ''10.0.0.2'', state = WAITING, useTLS = False,
            socket = None, timer = Some 9000, closeHook = Some ''44001|10.0.0.2'',
            errorListeners = 0, emitted = [EvListenerReady] \<rparr>],
       listeners = (\<lambda>p. None)(44001 := Some
         \<lparr> listenerPort = 44001, bindAddress = ''10.0.0.1'',
           listenerState = Listener_LISTENING,
           waitingConnections = [(''44001|10.0.0.2'', 0)], allConnections = [0],
           server = True, stopping = False, onListening = 0 \<rparr>),
       nextTick = [],
       trace = [ServerListen 44001 ''10.0.0.1'', ListenerEmitted 44001 ''listening''] \<rparr>"
  unfolding world1_def
  by (simp add: pool_defs js_defs Let_def)


lemma world2_eval:
  "world2 =
     \<lparr> now = 0,
       connections =
         [\<lparr> port = 44001, remoteAddress = ''10.0.0.2'', state = WAITING, useTLS = False,
            socket = None, timer = Some 9000, closeHook = Some ''44001|10.0.0.2'',
            errorListeners = 0, emitted = [EvListenerReady] \<rparr>,
          \<lparr> port = 44001, remoteAddress = ''10.0.0.2'', state = WAITING, useTLS = False,
            socket = None, timer = Some 9000, closeHook = None,
            errorListeners = 0,
            emitted = [EvListenerError \<lparr> errMessage = ''listen EADDRINUSE 10.0.0.1:44001'',
                                        errCode = Some ''EADDRINUSE'' \<rparr>] \<rparr>,
          \<lparr> port = 44002, remoteAddress = ''10.0.0.2'', state = WAITING, useTLS = False,
            socket = None, timer = Some 9000, closeHook = Some ''44002|10.0.0.2'',
            errorListeners = 0, emitted = [EvListenerReady] \<rparr>],
       listeners = (\<lambda>p. None)(44001 := Some
         \<lparr> listenerPort = 44001, bindAddress = ''10.0.0.1'',
           listenerState = Listener_LISTENING,
           waitingConnections = [(''44001|10.0.0.2'', 0)], allConnections = [0],
           server = True, stopping = False, onListening = 0 \<rparr>,
         44002 := Some
         \<lparr> listenerPort = 44002, bindAddress = ''10.0.0.1'',
           listenerState = Listener_LISTENING,
           waitingConnections = [(''44002|10.0.0.2'', 2)], allConnections = [2],
           server = True, stopping = False, onListening = 0 \<rparr>),
       nextTick = [],
       trace = [ServerListen 44001 ''10.0.0.1'', ListenerEmitted 44001 ''listening'',
                ServerListen 44002 ''10.0.0.1'', ListenerEmitted 44002 ''listening''] \<rparr>"
  unfolding world2_def world1_eval
  by (simp add: pool_defs js_defs Let_def) (simp add: numeral_2_eq_2)



lemma world2_facts:
  "nextTick world2 = []"
  "busy world2 ''10.0.0.2'' 44001"
  "busy world2 ''10.0.0.2'' 44002"
  "\<not> busy world2 ''10.0.0.2'' 44003"
  unfolding world2_eval
  by (simp_all add: pool_defs js_defs Let_def)




subsection \<open>Port selection\<close>




subsection \<open>One waiter per key\<close>

lemma mapSet_keys: "fst ` set (mapSet k v m) = insert k (fst ` set m)"
proof (induction m)
  case Nil
  show ?case by simp
next
  case (Cons kv m)
  obtain k' v' where kv: "kv = (k', v')" by (cases kv)
  show ?case
  proof (cases "k' = k")
    case True
    then show ?thesis by (simp add: kv)
  next
    case False
    have "fst ` set (mapSet k v (kv # m)) = insert k' (fst ` set (mapSet k v m))"
      using False by (simp add: kv)
    also have "\<dots> = insert k' (insert k (fst ` set m))" by (simp only: Cons.IH)
    finally show ?thesis by (simp add: kv insert_commute)
  qed
qed

lemma mapSet_distinct: "distinct (map fst m) \<Longrightarrow> distinct (map fst (mapSet k v m))"
proof (induction m)
  case Nil
  then show ?case by simp
next
  case (Cons kv m)
  obtain k' v' where kv: "kv = (k', v')" by (cases kv)
  show ?case
  proof (cases "k' = k")
    case True
    with Cons.prems kv show ?thesis by simp
  next
    case False
    from Cons.prems kv have "k' \<notin> fst ` set m" and "distinct (map fst m)" by simp_all
    with False Cons.IH kv mapSet_keys [of k v m] show ?thesis by simp
  qed
qed

lemma listenForClient_keysDistinct:
  assumes "keysDistinct w"
  shows "keysDistinct (fst (listenForClient p remote tls w))"
proof (cases "listeners w p")
  case None
  then have "listeners (fst (listenForClient p remote tls w)) = listeners w"
    by (simp add: listenForClient_def Let_def)
  with assms show ?thesis by (simp add: keysDistinct_def)
next
  case (Some l)
  show ?thesis
  proof (cases "mapHas (connectionKey p remote) (waitingConnections l)")
    case True
    from listenForClient_busy [OF Some True, of tls]
    have "listeners (fst (listenForClient p remote tls w)) = listeners w" by simp
    with assms show ?thesis by (simp add: keysDistinct_def)
  next
    case False
    from listenForClient_free [OF Some False refl, of tls]
    obtain l' where l': "listeners (fst (listenForClient p remote tls w)) p = Some l'"
      "waitingConnections l' =
         mapSet (connectionKey p remote) (length (connections w)) (waitingConnections l)"
      and oth: "\<forall>q. q \<noteq> p \<longrightarrow> listeners (fst (listenForClient p remote tls w)) q = listeners w q"
      by blast
    from assms Some have "distinct (map fst (waitingConnections l))"
      unfolding keysDistinct_def by (metis option.simps(5))
    then have d: "distinct (map fst (waitingConnections l'))"
      unfolding l'(2) by (rule mapSet_distinct)
    show ?thesis unfolding keysDistinct_def
    proof
      fix q
      show "case listeners (fst (listenForClient p remote tls w)) q of
              None \<Rightarrow> True
            | Some l \<Rightarrow> distinct (map fst (waitingConnections l))"
      proof (cases "q = p")
        case True
        then show ?thesis using l'(1) d by simp
      next
        case False
        then show ?thesis using oth assms unfolding keysDistinct_def by simp
      qed
    qed
  qed
qed







lemma emptyWorld_keysDistinct: "keysDistinct emptyWorld"
  by (simp add: keysDistinct_def emptyWorld_def)



text \<open>The map of a new pool is empty, and every other operation keeps each key once as
  well: it deletes entries or leaves the maps alone.\<close>

lemma keysDistinctI:
  "(\<And>q l. listeners w q = Some l \<Longrightarrow> distinct (map fst (waitingConnections l))) \<Longrightarrow>
   keysDistinct w"
  by (auto simp: keysDistinct_def split: option.splits)

lemma keysDistinctD:
  "keysDistinct w \<Longrightarrow> listeners w q = Some l \<Longrightarrow> distinct (map fst (waitingConnections l))"
  unfolding keysDistinct_def by (metis option.simps(5))

lemma keysDistinct_frame:
  "keysDistinct (updConn c f w) = keysDistinct w"
  "keysDistinct (addEffect e w) = keysDistinct w"
  "keysDistinct (schedule t w) = keysDistinct w"
  "keysDistinct (emitOn c ev w) = keysDistinct w"
  "keysDistinct (fold (\<lambda>kc. emitOn (snd kc) ev) ws w) = keysDistinct w"
  "keysDistinct (w\<lparr>nextTick := ts\<rparr>) = keysDistinct w"
  "keysDistinct (w\<lparr>connections := cs\<rparr>) = keysDistinct w"
  by (simp_all add: keysDistinct_def)

lemma keysDistinct_updListener:
  assumes "keysDistinct w"
      and "\<And>l. distinct (map fst (waitingConnections l)) \<Longrightarrow>
               distinct (map fst (waitingConnections (f l)))"
  shows "keysDistinct (updListener p f w)"
proof (rule keysDistinctI)
  fix q l
  assume a: "listeners (updListener p f w) q = Some l"
  show "distinct (map fst (waitingConnections l))"
  proof (cases "q = p")
    case True
    with a obtain l0 where l0: "listeners w p = Some l0" and l: "l = f l0"
      by (auto simp: updListener_listeners)
    from keysDistinctD [OF assms(1) l0] assms(2) show ?thesis unfolding l by simp
  next
    case False
    with a have "listeners w q = Some l" by (simp add: updListener_listeners)
    from keysDistinctD [OF assms(1) this] show ?thesis .
  qed
qed

lemma keysDistinct_stopServer: "keysDistinct w \<Longrightarrow> keysDistinct (stopServer p w)"
  unfolding stopServer_def
  by (rule keysDistinct_updListener) (simp_all add: keysDistinct_frame)

lemma keysDistinct_startServer: "keysDistinct w \<Longrightarrow> keysDistinct (startServer p w)"
  unfolding startServer_def
  by (cases "listeners w p") (simp_all add: keysDistinct_updListener keysDistinct_frame)

lemma keysDistinct_stop: "keysDistinct w \<Longrightarrow> keysDistinct (stop p w)"
  unfolding stop_def
  by (cases "listeners w p")
     (simp_all add: keysDistinct_updListener keysDistinct_stopServer)

lemma keysDistinct_stopIfDone: "keysDistinct w \<Longrightarrow> keysDistinct (stopIfDone p w)"
  unfolding stopIfDone_def
  by (cases "listeners w p") (simp_all add: keysDistinct_stop)

lemma mapDelete_distinct: "distinct (map fst m) \<Longrightarrow> distinct (map fst (mapDelete k m))"
  by (simp add: mapDelete_def distinct_map_filter)

lemma keysDistinct_listenerCloseHook:
  "keysDistinct w \<Longrightarrow> keysDistinct (listenerCloseHook p c key w)"
  unfolding listenerCloseHook_def
  by (rule keysDistinct_stopIfDone, rule keysDistinct_updListener)
     (simp_all add: mapDelete_distinct)

lemma keysDistinct_pdcClose: "keysDistinct w \<Longrightarrow> keysDistinct (pdcClose c w)"
  unfolding pdcClose_def
  by (simp add: Let_def keysDistinct_listenerCloseHook keysDistinct_frame split: option.splits)

lemma keysDistinct_pdcOnError: "keysDistinct w \<Longrightarrow> keysDistinct (pdcOnError c err w)"
  unfolding pdcOnError_def by (simp add: keysDistinct_frame)

lemma keysDistinct_pdcSetSocket: "keysDistinct w \<Longrightarrow> keysDistinct (pdcSetSocket c s w)"
  unfolding pdcSetSocket_def by (simp add: Let_def keysDistinct_frame)

lemma keysDistinct_fireTimer: "keysDistinct w \<Longrightarrow> keysDistinct (fireTimer c w)"
  unfolding fireTimer_def
  by (simp add: keysDistinct_pdcOnError keysDistinct_frame split: option.splits)

lemma keysDistinct_runTick: "keysDistinct w \<Longrightarrow> keysDistinct (runTick t w)"
  unfolding runTick_def
  by (cases t) (simp_all add: keysDistinct_pdcClose keysDistinct_frame)

lemma keysDistinct_fold_runTick: "keysDistinct w \<Longrightarrow> keysDistinct (fold runTick ts w)"
  by (induction ts arbitrary: w) (simp_all add: keysDistinct_runTick)

lemma keysDistinct_drainTicks: "keysDistinct w \<Longrightarrow> keysDistinct (drainTicks w)"
  unfolding drainTicks_def
  by (rule keysDistinct_fold_runTick) (simp add: keysDistinct_frame)

lemma keysDistinct_onStartingError: "keysDistinct w \<Longrightarrow> keysDistinct (onStartingError p err w)"
  unfolding onStartingError_def
  by (cases "listeners w p") (simp_all add: keysDistinct_updListener keysDistinct_frame)

lemma keysDistinct_deferredStop: "keysDistinct w \<Longrightarrow> keysDistinct (deferredStop p w)"
  unfolding deferredStop_def
  by (rule keysDistinct_stop, rule keysDistinct_updListener) simp_all

lemma keysDistinct_funpow_deferredStop:
  "keysDistinct w \<Longrightarrow> keysDistinct ((deferredStop p ^^ n) w)"
  by (induction n) (simp_all add: keysDistinct_deferredStop)

lemma keysDistinct_onReady: "keysDistinct w \<Longrightarrow> keysDistinct (onReady p w)"
proof (cases "listeners w p")
  case None
  assume "keysDistinct w"
  with None show ?thesis by (simp add: onReady_def)
next
  case (Some l)
  assume k: "keysDistinct w"
  define w1 where "w1 = addEffect (ListenerEmitted p ''listening'')
                     (updListener p (\<lambda>l. l\<lparr>listenerState := Listener_LISTENING\<rparr>) w)"
  have "keysDistinct (updListener p (\<lambda>l. l\<lparr>listenerState := Listener_LISTENING\<rparr>) w)"
    using k by (rule keysDistinct_updListener) simp
  then have "keysDistinct w1" unfolding w1_def by (simp add: keysDistinct_frame)
  then have k2: "keysDistinct ((deferredStop p ^^ onListening l) w1)"
    by (rule keysDistinct_funpow_deferredStop)
  show ?thesis unfolding onReady_def using Some k2
    by (simp add: Let_def w1_def [symmetric] keysDistinct_frame split: option.splits)
qed

lemma keysDistinct_onConnection: "keysDistinct w \<Longrightarrow> keysDistinct (onConnection p s w)"
  unfolding onConnection_def
  by (cases "listeners w p")
     (simp_all add: Let_def keysDistinct_frame keysDistinct_pdcSetSocket
        keysDistinct_updListener mapDelete_distinct split: option.splits)

lemma keysDistinct_attempt:
  assumes "keysDistinct w"
  shows "keysDistinct (fst (attempt pool bind remote tls p w))"
proof -
  define w1 where "w1 = (case listeners w p of
                  None \<Rightarrow> w\<lparr>listeners := (listeners w)(p := Some (newListener p (poolBindAddress pool)))\<rparr>
                | Some l \<Rightarrow> w)"
  have k1: "keysDistinct w1"
  proof (cases "listeners w p")
    case None
    show ?thesis
    proof (rule keysDistinctI)
      fix q l
      assume "listeners w1 q = Some l"
      with None keysDistinctD [OF assms, of q l]
      show "distinct (map fst (waitingConnections l))"
        unfolding w1_def by (cases "q = p") (auto simp: newListener_def)
    qed
  next
    case (Some l)
    with assms show ?thesis unfolding w1_def by simp
  qed
  obtain w2 c where lf: "listenForClient p remote tls w1 = (w2, c)"
    by (cases "listenForClient p remote tls w1") auto
  from listenForClient_keysDistinct [OF k1, of p remote tls] lf have k2: "keysDistinct w2"
    by simp
  then have k3: "keysDistinct (drainTicks w2)" by (rule keysDistinct_drainTicks)
  show ?thesis unfolding attempt_def w1_def [symmetric] using lf k3
    by (simp add: Let_def keysDistinct_onReady keysDistinct_onStartingError
        split: option.splits)
qed

lemma keysDistinct_startListener:
  "keysDistinct w \<Longrightarrow> keysDistinct (fst (startListener pool bind remote tls p w))"
proof (induction pool bind remote tls p w rule: startListener.induct)
  case (1 pool bind remote tls p w)
  obtain w' c where at: "attempt pool bind remote tls p w = (w', c)"
    by (cases "attempt pool bind remote tls p w") auto
  from keysDistinct_attempt [OF "1.prems", of pool bind remote tls p] at
  have k: "keysDistinct w'" by simp
  show ?case
  proof (cases "signalOf c w'")
    case None
    with at k show ?thesis by (subst startListener.simps) simp
  next
    case (Some ev)
    show ?thesis
    proof (cases ev)
      case (EvListenerError err)
      show ?thesis
      proof (cases "errCode err = Some ''EADDRINUSE'' \<and> p < maxPort pool")
        case True
        from "1.IH" [OF at [symmetric] Some EvListenerError True k]
        show ?thesis using at Some EvListenerError True
          by (subst startListener.simps) simp
      next
        case False
        with at k Some EvListenerError show ?thesis
          by (subst startListener.simps) auto
      qed
    qed (use at k Some in \<open>subst startListener.simps, simp\<close>)+
  qed
qed

lemma keysDistinct_createDataConnection:
  "keysDistinct w \<Longrightarrow> keysDistinct (fst (createDataConnection pool bind remote tls w))"
  unfolding createDataConnection_def by (rule keysDistinct_startListener)

subsection \<open>Accepted sockets\<close>

lemma worldHost_eval:
  "worldHost =
     \<lparr> now = 0,
       connections =
         [\<lparr> port = 44001, remoteAddress = ''10.0.0.1'', state = WAITING, useTLS = False,
            socket = None, timer = Some 9000, closeHook = Some ''44001|10.0.0.1'',
            errorListeners = 0, emitted = [EvListenerReady] \<rparr>],
       listeners = (\<lambda>p. None)(44001 := Some
         \<lparr> listenerPort = 44001, bindAddress = ''10.0.0.1'',
           listenerState = Listener_LISTENING,
           waitingConnections = [(''44001|10.0.0.1'', 0)], allConnections = [0],
           server = True, stopping = False, onListening = 0 \<rparr>),
       nextTick = [],
       trace = [ServerListen 44001 ''10.0.0.1'', ListenerEmitted 44001 ''listening''] \<rparr>"
  unfolding worldHost_def
  by (simp add: pool_defs js_defs Let_def)


text \<open>The lookup of \<^verbatim>\<open>_onConnection\<close> never reads the peer's address.\<close>

lemma onConnection_ignores_peer:
  "listeners (onConnection p (s\<lparr>sockRemoteAddress := r\<rparr>) w) = listeners (onConnection p s w)"
  "map state (connections (onConnection p (s\<lparr>sockRemoteAddress := r\<rparr>) w)) =
     map state (connections (onConnection p s w))"
  by (auto simp: onConnection_def Let_def pdcSetSocket_def updConn_def emitOn_def addEffect_def
      updListener_def map_update split: option.splits)

text \<open>
  C2. The claim: the listener looks the waiting connection up under (listener port, remote
  IP of the accepted socket), installs the socket on a hit and destroys it on a miss.
  The code does otherwise: the address it reads is \<^verbatim>\<open>socket.address().address\<close>, the
  address the accepted socket is bound to on the server, not the peer's. Two runs show
  it. A waiter registered for the client 10.0.0.2 is not found when that client
  connects: the socket is destroyed and the waiter stays. A waiter registered the way
  \<^verbatim>\<open>__PASV\<close> registers it, under the server's own host, is found for a socket from any
  peer: the stranger's socket is installed.
\<close>

theorem C2_lookup_by_bound_address:
  "remoteAddress (connections world1 ! 0) = sockRemoteAddress clientSocket \<and>
   state (connections world1 ! 0) = WAITING \<and>
   busy world1 (sockRemoteAddress clientSocket) 44001 \<and>
   trace (onConnection 44001 clientSocket world1) = trace world1 @ [SocketDestroy clientSocket] \<and>
   connections (onConnection 44001 clientSocket world1) = connections world1 \<and>
   listeners (onConnection 44001 clientSocket world1) = listeners world1 \<and>
   remoteAddress (connections worldHost ! 0) = ''10.0.0.1'' \<and>
   sockRemoteAddress strangerSocket = ''10.0.0.99'' \<and>
   \<not> busy worldHost (sockRemoteAddress strangerSocket) 44001 \<and>
   trace (onConnection 44001 strangerSocket worldHost) = trace worldHost \<and>
   state (connections (onConnection 44001 strangerSocket worldHost) ! 0) = READY \<and>
   socket (connections (onConnection 44001 strangerSocket worldHost) ! 0) = Some strangerSocket"
  unfolding world1_eval worldHost_eval
  by (simp add: pool_defs js_defs Let_def clientSocket_def strangerSocket_def)


subsection \<open>The wait timer\<close>

lemma stopIfDone_sel [simp]:
  "connections (stopIfDone p w) = connections w"
  "nextTick (stopIfDone p w) = nextTick w"
  by (simp_all add: stopIfDone_def split: option.splits)

lemma listenerCloseHook_sel [simp]:
  "connections (listenerCloseHook p c key w) = connections w"
  "nextTick (listenerCloseHook p c key w) = nextTick w"
  by (simp_all add: listenerCloseHook_def)

lemma pdcClose_closes:
  assumes "c < length (connections w)" and "state (connections w ! c) \<noteq> CLOSED"
  shows "state (connections (pdcClose c w) ! c) = CLOSED"
    and "emitted (connections (pdcClose c w) ! c) = emitted (connections w ! c) @ [EvClose]"
  using assms
  by (simp_all add: pdcClose_def Let_def emitOn_nth updConn_nth split: option.splits)

lemma pdcClose_idempotent:
  assumes "c < length (connections w)" and "state (connections w ! c) = CLOSED"
  shows "pdcClose c w = w"
  using assms by (simp add: pdcClose_def)

text \<open>With a handler for \<^verbatim>\<open>error\<close> attached, the timer's expiry is delivered and the
  connection closes on the next tick, emitting \<^verbatim>\<open>close\<close> once.\<close>

lemma timeout_closes_listened:
  assumes "c < length (connections w)" and "timer (connections w ! c) = Some deadline"
      and "deadline \<le> now w" and "0 < errorListeners (connections w ! c)"
      and "state (connections w ! c) \<noteq> CLOSED" and "nextTick w = []"
  shows "state (connections (drainTicks (fireTimer c w)) ! c) = CLOSED"
    and "emitted (connections (drainTicks (fireTimer c w)) ! c) =
           emitted (connections w ! c) @ [EvError timeoutError, EvClose]"
    and "pdcClose c (drainTicks (fireTimer c w)) = drainTicks (fireTimer c w)"
proof -
  define w1 where "w1 = emitOn c (EvError timeoutError) (updConn c (\<lambda>d. d\<lparr>timer := None\<rparr>) w)"
  have f: "fireTimer c w = schedule (TickClose c) w1"
    unfolding fireTimer_def pdcOnError_def w1_def using assms(1,2,3,4)
    by (simp add: updConn_nth)
  have d: "drainTicks (fireTimer c w) = pdcClose c (w1\<lparr>nextTick := []\<rparr>)"
    unfolding f drainTicks_def runTick_def using assms(6)
    by (simp add: w1_def schedule_def)
  have l: "c < length (connections (w1\<lparr>nextTick := []\<rparr>))" unfolding w1_def using assms(1) by simp
  have s: "state (connections (w1\<lparr>nextTick := []\<rparr>) ! c) \<noteq> CLOSED"
    unfolding w1_def using assms(1,5) by (simp add: emitOn_nth updConn_nth)
  have e: "emitted (connections (w1\<lparr>nextTick := []\<rparr>) ! c) =
             emitted (connections w ! c) @ [EvError timeoutError]"
    unfolding w1_def using assms(1) by (simp add: emitOn_nth updConn_nth)
  show 1: "state (connections (drainTicks (fireTimer c w)) ! c) = CLOSED"
    unfolding d using pdcClose_closes(1) [OF l s] .
  show "emitted (connections (drainTicks (fireTimer c w)) ! c) =
           emitted (connections w ! c) @ [EvError timeoutError, EvClose]"
    unfolding d using pdcClose_closes(2) [OF l s] e by simp
  have "c < length (connections (drainTicks (fireTimer c w)))"
    unfolding d pdcClose_def using l by (simp add: Let_def split: option.splits)
  from pdcClose_idempotent [OF this 1]
  show "pdcClose c (drainTicks (fireTimer c w)) = drainTicks (fireTimer c w)" .
qed

text \<open>Installing a socket clears the timer; a cleared timer never fires.\<close>

lemma setSocket_cancels_timer:
  assumes "c < length (connections w)" and "socket (connections w ! c) = None"
  shows "timer (connections (pdcSetSocket c s w) ! c) = None"
    and "fireTimer c (pdcSetSocket c s w) = pdcSetSocket c s w"
proof -
  show t: "timer (connections (pdcSetSocket c s w) ! c) = None"
    using assms by (simp add: pdcSetSocket_def Let_def emitOn_nth updConn_nth)
  have "c < length (connections (pdcSetSocket c s w))"
    using assms by (simp add: pdcSetSocket_def Let_def)
  with t show "fireTimer c (pdcSetSocket c s w) = pdcSetSocket c s w"
    by (simp add: fireTimer_def)
qed


text \<open>
  C8. The claim: a passive data connection on which no socket is installed within 9000 ms
  of its construction emits an error and goes to CLOSED, emitting \<^verbatim>\<open>close\<close> once;
  installing a socket clears the timer. The code does otherwise for a connection with no
  handler for \<^verbatim>\<open>error\<close>, such as the one \<^verbatim>\<open>listenForClient\<close> turns away (connection 1
  of the world after two requests): when its timer expires, \<^verbatim>\<open>emit('error')\<close> throws,
  \<^verbatim>\<open>_close\<close> is never queued, the state stays WAITING and nothing is emitted.
\<close>

theorem C8_timeout_on_unlistened_connection:
  "closeHook (connections world2 ! 1) = None \<and>
   errorListeners (connections world2 ! 1) = 0 \<and>
   socket (connections world2 ! 1) = None \<and>
   state (connections world2 ! 1) = WAITING \<and>
   timer (connections world2 ! 1) = Some WAIT_TIMEOUT \<and>
   now (advance WAIT_TIMEOUT world2) = WAIT_TIMEOUT \<and>
   state (connections (drainTicks (fireTimer 1 (advance WAIT_TIMEOUT world2))) ! 1) = WAITING \<and>
   emitted (connections (drainTicks (fireTimer 1 (advance WAIT_TIMEOUT world2))) ! 1) =
     emitted (connections world2 ! 1) \<and>
   trace (drainTicks (fireTimer 1 (advance WAIT_TIMEOUT world2))) =
     trace world2 @ [Thrown timeoutError]"
  unfolding world2_eval
  by (simp add: pool_defs js_defs Let_def)

end
